theory Spec2Isabelle
  imports Main
begin

section \<open>Common data: errors, host timers, abort signals\<close>

text \<open>
  The rate limiting engine (CADENCE) is a family of closures over mutable variables.
  Each closure record becomes a \<^theory_text>\<open>record\<close>; each inner function takes the
  record and returns the updated one. Clock readings (\<open>Date.now()\<close>,
  \<open>performance.now()\<close>) are passed in as the parameter \<open>now\<close>, a whole number of
  milliseconds (the fractional part of \<open>performance.now()\<close> is not modelled).

  Errors are values. \<open>DOMException msg name\<close> is the exception the engine itself
  raises; \<open>Thrown\<close> is whatever a wrapped operation throws or rejects with.
\<close>

datatype error = DOMException string string | Thrown string

fun name :: "error \<Rightarrow> string" where
  "name (DOMException msg n) = n"
| "name (Thrown msg) = ''Error''"

text \<open>
  The host's timer table: \<open>setTimeout\<close> adds a handle with the time at which its
  callback is due, \<open>clearTimeout\<close> removes the handle (and is a no-op on a handle
  that already fired). The host keeps the delay in a signed 32-bit integer: a delay
  above 2147483647 is replaced by 1, and a negative delay is treated as 0. Handles
  are positive numbers, so a stored handle is truthy.
\<close>

type_synonym timer_table = "(nat \<times> int) list"

definition clearTimeout :: "nat \<Rightarrow> timer_table \<Rightarrow> timer_table" where
  "clearTimeout h tt = filter (\<lambda>e. fst e \<noteq> h) tt"

definition due :: "int \<Rightarrow> int \<Rightarrow> int" where
  "due now delay = now + (if delay > 2147483647 then 1 else max 0 delay)"

section \<open>Batch throttle\<close>

text \<open>
  \<open>throttleBatch(fn, wait, options)\<close>: the closure holds \<open>batch\<close>, \<open>timeoutId\<close> and
  \<open>firstBatchTime\<close>. The model adds the host's timer table, the log of the batches
  handed to \<open>fn\<close> and the log of \<open>console.warn\<close>.
\<close>

record BatchThrottleOptions =
  opt_batchSize :: "int option"
  opt_maxWait :: "int option"

record batch_config =
  batchWait :: int
  batchSize :: int
  batchMaxWait :: int

record 'a batch_state =
  batch :: "'a list"
  batchTimeoutId :: "nat option"
  firstBatchTime :: int
  batchTimers :: timer_table
  batchNextTimer :: nat
  batchCalls :: "'a list list"
  batchWarned :: "error list"

text \<open>
  What a call \<open>fn(batch)\<close> can do: return nothing, return a promise that fulfils,
  return a promise that rejects (the wrapper logs it), or throw synchronously (the
  wrapper has no \<open>try\<close> around the call, so the exception leaves \<open>flush\<close>).
\<close>

datatype batch_result = Void | PromiseFulfilled | PromiseRejected error | Threw error

definition batch_config_of :: "int \<Rightarrow> BatchThrottleOptions \<Rightarrow> batch_config" where
  "batch_config_of wait options =
     \<lparr> batchWait = wait,
       batchSize = (case opt_batchSize options of None \<Rightarrow> 10 | Some b \<Rightarrow> b),
       batchMaxWait = (case opt_maxWait options of None \<Rightarrow> wait * 3 | Some m \<Rightarrow> m) \<rparr>"

definition batch_init :: "'a batch_state" where
  "batch_init =
     \<lparr> batch = [], batchTimeoutId = None, firstBatchTime = 0,
       batchTimers = [], batchNextTimer = 1, batchCalls = [], batchWarned = [] \<rparr>"

text \<open>\<open>throttleBatch\<close> itself: no path of the constructor raises.\<close>

definition throttleBatch ::
  "int \<Rightarrow> BatchThrottleOptions \<Rightarrow> error + (batch_config \<times> 'a batch_state)" where
  "throttleBatch wait options = Inr (batch_config_of wait options, batch_init)"

text \<open>The inner \<open>flush\<close>. The first component is the exception that escapes, if any.\<close>

definition batch_flush ::
  "('a list \<Rightarrow> batch_result) \<Rightarrow> 'a batch_state \<Rightarrow> error option \<times> 'a batch_state" where
  "batch_flush fn s =
     (if length (batch s) > 0 then
        (let s1 = s\<lparr>batchCalls := batchCalls s @ [batch s]\<rparr> in
         case fn (batch s) of
           Threw e \<Rightarrow> (Some e, s1)
         | PromiseRejected e \<Rightarrow>
             (None, s1\<lparr>batchWarned := batchWarned s1 @ [e], batch := [],
                        firstBatchTime := 0, batchTimeoutId := None\<rparr>)
         | _ \<Rightarrow> (None, s1\<lparr>batch := [], firstBatchTime := 0, batchTimeoutId := None\<rparr>))
      else (None, s\<lparr>batchTimeoutId := None\<rparr>))"

text \<open>\<open>if (timeoutId) clearTimeout(timeoutId)\<close>: the variable keeps the handle.\<close>

definition batch_clear :: "'a batch_state \<Rightarrow> 'a batch_state" where
  "batch_clear s =
     (case batchTimeoutId s of
        Some h \<Rightarrow> s\<lparr>batchTimers := clearTimeout h (batchTimers s)\<rparr>
      | None \<Rightarrow> s)"

text \<open>The returned closure \<open>(...args) => void\<close>, called at clock reading \<open>now\<close>.\<close>

definition batch_invoke ::
  "batch_config \<Rightarrow> ('a list \<Rightarrow> batch_result) \<Rightarrow> int \<Rightarrow> 'a \<Rightarrow> 'a batch_state
     \<Rightarrow> error option \<times> 'a batch_state" where
  "batch_invoke cfg fn now args s =
     (let s1 = (if length (batch s) = 0 then s\<lparr>firstBatchTime := now\<rparr> else s);
          s2 = s1\<lparr>batch := batch s1 @ [args]\<rparr>
      in if int (length (batch s2)) \<ge> batchSize cfg
            \<or> now - firstBatchTime s2 \<ge> batchMaxWait cfg
         then batch_flush fn (batch_clear s2)
         else (let s3 = batch_clear s2 in
               (None, s3\<lparr>batchTimeoutId := Some (batchNextTimer s3),
                         batchTimers := batchTimers s3 @ [(batchNextTimer s3, due now (batchWait cfg))],
                         batchNextTimer := Suc (batchNextTimer s3)\<rparr>)))"

text \<open>
  The host runs the callback of the first armed timer: \<open>setTimeout(flush, wait)\<close>.
  With no timer armed nothing happens.
\<close>

definition batch_timer :: "('a list \<Rightarrow> batch_result) \<Rightarrow> 'a batch_state \<Rightarrow> 'a batch_state" where
  "batch_timer fn s =
     (case batchTimers s of
        [] \<Rightarrow> s
      | e # rest \<Rightarrow> snd (batch_flush fn (s\<lparr>batchTimers := rest\<rparr>)))"

datatype 'a batch_event = BInvoke int 'a | BTimer

fun batch_step :: "batch_config \<Rightarrow> ('a list \<Rightarrow> batch_result) \<Rightarrow> 'a batch_state \<Rightarrow> 'a batch_event
     \<Rightarrow> 'a batch_state" where
  "batch_step cfg fn s (BInvoke now args) = snd (batch_invoke cfg fn now args s)"
| "batch_step cfg fn s BTimer = batch_timer fn s"

definition batch_run :: "batch_config \<Rightarrow> ('a list \<Rightarrow> batch_result) \<Rightarrow> 'a batch_event list
     \<Rightarrow> 'a batch_state" where
  "batch_run cfg fn es = foldl (batch_step cfg fn) batch_init es"

text \<open>The flush condition of an invocation, read on the state before it.\<close>

definition batch_full :: "batch_config \<Rightarrow> int \<Rightarrow> 'a batch_state \<Rightarrow> bool" where
  "batch_full cfg now s =
     (int (length (batch s)) + 1 \<ge> batchSize cfg
      \<or> now - (if batch s = [] then now else firstBatchTime s) \<ge> batchMaxWait cfg)"

section \<open>The shared engine state of the promise-based tiers\<close>

text \<open>
  The high and the medium precision tier have the same code but for the clock they read
  (\<open>performance.now()\<close> against \<open>Date.now()\<close>); the reading is the parameter \<open>now\<close>
  here, so one set of definitions models both tiers.

  The wrapped operation is \<open>fn :: 'a \<Rightarrow> error + 'r\<close>: \<open>Inr r\<close> when the promise it
  returns fulfils with \<open>r\<close>, \<open>Inl e\<close> when it throws or its promise rejects with \<open>e\<close>.
  An \<open>await fn(...)\<close> is taken as one step: the operation settles before the next
  event reaches the wrapper. Every call of \<open>fn\<close> is logged in \<open>calls\<close> with its
  arguments and the value \<open>lastExecTime\<close> has at that moment.

  Promises are numbered; \<open>promises\<close> holds the state of each. \<open>resolvePending\<close> and
  \<open>rejectPending\<close> are the continuations of the promise whose number they carry;
  settling a promise twice has no effect, as in the host.
\<close>

datatype PrecisionTier = HIGH | MEDIUM | LOW

datatype signal = AbortSignal (aborted: bool) (listening: bool)

datatype 'r settlement = Unsettled | Resolved "'r option" | Rejected error

text \<open>
  What an \<open>async\<close> function hands back: a promise fulfilled with a value, a promise
  rejected with an error, or a promise that follows the shared \<open>pendingPromise\<close>.
\<close>

datatype 'r outcome = Fulfilled "'r option" | Failed error | Adopts nat

record config =
  wait :: int
  leading :: bool
  trailing :: bool
  maxWait :: "int option"

record ('a, 'r) engine =
  timeoutId :: "nat option"
  lastExecTime :: int
  lastArgs :: "'a option"
  lastResult :: "'r option"
  pendingPromise :: "nat option"
  resolvePending :: "nat option"
  rejectPending :: "nat option"
  abortCleanup :: bool
  abortSignal :: "signal option"
  timers :: timer_table
  nextTimer :: nat
  promises :: "'r settlement list"
  calls :: "('a \<times> int) list"

record ('a, 'r) throttle_engine = "('a, 'r) engine" +
  hasExecutedInCurrentBurst :: bool

record AsyncOptions =
  leadingOpt :: "bool option"
  trailingOpt :: "bool option"
  maxWaitOpt :: "int option"
  abortSignalOpt :: "bool option"
  precisionOpt :: "PrecisionTier option"

definition abortError :: error where
  "abortError = DOMException ''Operation was aborted'' ''AbortError''"

definition cancelError :: error where
  "cancelError = DOMException ''Operation was cancelled'' ''AbortError''"

definition settle :: "nat \<Rightarrow> 'r settlement \<Rightarrow> 'r settlement list \<Rightarrow> 'r settlement list" where
  "settle p v ps = (if p < length ps \<and> ps ! p = Unsettled then ps[p := v] else ps)"

text \<open>\<open>if (resolvePending) resolvePending(v)\<close> and \<open>if (rejectPending) rejectPending(e)\<close>.\<close>

definition callResolve :: "'r option \<Rightarrow> ('a, 'r, 'z) engine_scheme \<Rightarrow> ('a, 'r, 'z) engine_scheme" where
  "callResolve v s =
     (case resolvePending s of
        Some p \<Rightarrow> s\<lparr>promises := settle p (Resolved v) (promises s)\<rparr>
      | None \<Rightarrow> s)"

definition callReject :: "error \<Rightarrow> ('a, 'r, 'z) engine_scheme \<Rightarrow> ('a, 'r, 'z) engine_scheme" where
  "callReject e s =
     (case rejectPending s of
        Some p \<Rightarrow> s\<lparr>promises := settle p (Rejected e) (promises s)\<rparr>
      | None \<Rightarrow> s)"

definition clearPending :: "('a, 'r, 'z) engine_scheme \<Rightarrow> ('a, 'r, 'z) engine_scheme" where
  "clearPending s = s\<lparr>pendingPromise := None, resolvePending := None, rejectPending := None\<rparr>"

text \<open>\<open>if (timeoutId) { clearTimeout(timeoutId); timeoutId = null; }\<close>\<close>

definition clearTimer :: "('a, 'r, 'z) engine_scheme \<Rightarrow> ('a, 'r, 'z) engine_scheme" where
  "clearTimer s =
     (case timeoutId s of
        Some h \<Rightarrow> s\<lparr>timers := clearTimeout h (timers s), timeoutId := None\<rparr>
      | None \<Rightarrow> s)"

text \<open>\<open>pendingPromise = new Promise((resolve, reject) => { ... })\<close>\<close>

definition newPromise :: "('a, 'r, 'z) engine_scheme \<Rightarrow> ('a, 'r, 'z) engine_scheme" where
  "newPromise s =
     s\<lparr>pendingPromise := Some (length (promises s)),
       resolvePending := Some (length (promises s)),
       rejectPending := Some (length (promises s)),
       promises := promises s @ [Unsettled]\<rparr>"

text \<open>\<open>timeoutId = setTimeout(callback, delay)\<close> at clock reading \<open>now\<close>.\<close>

definition armTimer :: "int \<Rightarrow> int \<Rightarrow> ('a, 'r, 'z) engine_scheme \<Rightarrow> ('a, 'r, 'z) engine_scheme" where
  "armTimer now delay s =
     s\<lparr>timeoutId := Some (nextTimer s),
       timers := timers s @ [(nextTimer s, due now delay)],
       nextTimer := Suc (nextTimer s)\<rparr>"

text \<open>\<open>abortSignal?.aborted\<close>\<close>

definition sigAborted :: "('a, 'r, 'z) engine_scheme \<Rightarrow> bool" where
  "sigAborted s = (case abortSignal s of Some sg \<Rightarrow> aborted sg | None \<Rightarrow> False)"

text \<open>
  \<open>if (abortCleanup) { abortCleanup(); abortCleanup = null; }\<close>: the stored function
  removes the abort listener from the signal (and does nothing without a signal).
\<close>

definition runAbortCleanup :: "('a, 'r, 'z) engine_scheme \<Rightarrow> ('a, 'r, 'z) engine_scheme" where
  "runAbortCleanup s =
     (if abortCleanup s then
        s\<lparr>abortSignal := map_option (\<lambda>sg. AbortSignal (aborted sg) False) (abortSignal s),
          abortCleanup := False\<rparr>
      else s)"

text \<open>\<open>maxWait ? ... : ...\<close>: an absent \<open>maxWait\<close> and the number 0 are falsy.\<close>

definition maxWaitSet :: "config \<Rightarrow> bool" where
  "maxWaitSet cfg = (case maxWait cfg of Some m \<Rightarrow> m \<noteq> 0 | None \<Rightarrow> False)"

definition maxWaitValue :: "config \<Rightarrow> int" where
  "maxWaitValue cfg = (case maxWait cfg of Some m \<Rightarrow> m | None \<Rightarrow> 0)"

definition isPending :: "('a, 'r, 'z) engine_scheme \<Rightarrow> bool" where
  "isPending s = (pendingPromise s \<noteq> None)"

text \<open>
  The host fires the abort event once: it sets \<open>aborted\<close>, and runs the wrapper's
  handler if it is still registered (\<open>once: true\<close> removes it as it runs).
\<close>

definition signalAbort ::
  "(('a, 'r, 'z) engine_scheme \<Rightarrow> ('a, 'r, 'z) engine_scheme) \<Rightarrow> ('a, 'r, 'z) engine_scheme
     \<Rightarrow> ('a, 'r, 'z) engine_scheme" where
  "signalAbort handler s =
     (case abortSignal s of
        None \<Rightarrow> s
      | Some sg \<Rightarrow>
          if aborted sg then s
          else (let s1 = s\<lparr>abortSignal := Some (AbortSignal True False)\<rparr>
                in if listening sg then handler s1 else s1))"

text \<open>
  The host runs the callbacks of the timers that are due at time \<open>t\<close>, earliest first,
  each at its own due time; \<open>drainTimers\<close> lets every armed timer fire.
\<close>

definition fireTimer ::
  "(int \<Rightarrow> ('a, 'r, 'z) engine_scheme \<Rightarrow> ('a, 'r, 'z) engine_scheme) \<Rightarrow> nat \<times> int
     \<Rightarrow> ('a, 'r, 'z) engine_scheme \<Rightarrow> ('a, 'r, 'z) engine_scheme" where
  "fireTimer callback e s = callback (snd e) (s\<lparr>timers := removeAll e (timers s)\<rparr>)"

definition advance ::
  "(int \<Rightarrow> ('a, 'r, 'z) engine_scheme \<Rightarrow> ('a, 'r, 'z) engine_scheme) \<Rightarrow> int
     \<Rightarrow> ('a, 'r, 'z) engine_scheme \<Rightarrow> ('a, 'r, 'z) engine_scheme" where
  "advance callback t s =
     fold (fireTimer callback) (filter (\<lambda>e. snd e \<le> t) (sort_key snd (timers s))) s"

definition drainTimers ::
  "(int \<Rightarrow> ('a, 'r, 'z) engine_scheme \<Rightarrow> ('a, 'r, 'z) engine_scheme)
     \<Rightarrow> ('a, 'r, 'z) engine_scheme \<Rightarrow> ('a, 'r, 'z) engine_scheme" where
  "drainTimers callback s = fold (fireTimer callback) (sort_key snd (timers s)) s"

section \<open>Debounce, high and medium precision\<close>

definition debounce_config :: "int \<Rightarrow> AsyncOptions \<Rightarrow> config" where
  "debounce_config w options =
     \<lparr> wait = w,
       leading = (case leadingOpt options of None \<Rightarrow> False | Some b \<Rightarrow> b),
       trailing = (case trailingOpt options of None \<Rightarrow> True | Some b \<Rightarrow> b),
       maxWait = maxWaitOpt options \<rparr>"

text \<open>
  The closure variables as the constructor leaves them: \<open>setupAbortListener\<close> registers
  the handler on the signal, if there is one, and \<open>abortCleanup\<close> holds a function.
\<close>

definition debounce_init :: "AsyncOptions \<Rightarrow> ('a, 'r) engine" where
  "debounce_init options =
     \<lparr> timeoutId = None, lastExecTime = 0, lastArgs = None, lastResult = None,
       pendingPromise = None, resolvePending = None, rejectPending = None,
       abortCleanup = True,
       abortSignal = map_option (\<lambda>b. AbortSignal b True) (abortSignalOpt options),
       timers = [], nextTimer = 1, promises = [], calls = [] \<rparr>"

definition debounceHighPrecision :: "int \<Rightarrow> AsyncOptions \<Rightarrow> config \<times> ('a, 'r) engine" where
  "debounceHighPrecision w options = (debounce_config w options, debounce_init options)"

definition debounceMediumPrecision :: "int \<Rightarrow> AsyncOptions \<Rightarrow> config \<times> ('a, 'r) engine" where
  "debounceMediumPrecision w options = (debounce_config w options, debounce_init options)"

definition debounce_cleanup :: "('a, 'r) engine \<Rightarrow> ('a, 'r) engine" where
  "debounce_cleanup s = (clearPending (runAbortCleanup (clearTimer s)))\<lparr>lastArgs := None\<rparr>"

definition debounce_executeFunction ::
  "('a \<Rightarrow> error + 'r) \<Rightarrow> 'a \<Rightarrow> ('a, 'r) engine \<Rightarrow> (error + 'r) \<times> ('a, 'r) engine" where
  "debounce_executeFunction fn args s =
     (let s1 = s\<lparr>calls := calls s @ [(args, lastExecTime s)]\<rparr> in
      case fn args of
        Inr r \<Rightarrow> (Inr r, s1\<lparr>lastResult := Some r\<rparr>)
      | Inl e \<Rightarrow> (Inl e, s1))"

definition debounce_delay :: "config \<Rightarrow> int \<Rightarrow> int" where
  "debounce_delay cfg timeSinceLastExec =
     (if maxWaitSet cfg then min (wait cfg) (maxWaitValue cfg - timeSinceLastExec) else wait cfg)"

definition asyncDebounced ::
  "config \<Rightarrow> ('a \<Rightarrow> error + 'r) \<Rightarrow> int \<Rightarrow> 'a \<Rightarrow> ('a, 'r) engine \<Rightarrow> 'r outcome \<times> ('a, 'r) engine" where
  "asyncDebounced cfg fn now args s =
     (if sigAborted s then (Failed abortError, s)
      else
        (let timeSinceLastExec = now - lastExecTime s;
             s1 = clearTimer s;
             s2 = s1\<lparr>lastArgs := Some args\<rparr>;
             s3 = (if pendingPromise s2 = None then newPromise s2 else s2)
         in if leading cfg \<and> (lastExecTime s3 = 0 \<or> timeSinceLastExec \<ge> wait cfg) then
              (case debounce_executeFunction fn args (s3\<lparr>lastExecTime := now\<rparr>) of
                 (Inr r, s5) \<Rightarrow> (Fulfilled (Some r), clearPending (callResolve (Some r) s5))
               | (Inl e, s5) \<Rightarrow> (Failed e, clearPending (callReject e s5)))
            else
              (let s4 = (if trailing cfg
                         then armTimer now (debounce_delay cfg timeSinceLastExec) s3 else s3)
               in (case pendingPromise s4 of Some p \<Rightarrow> Adopts p | None \<Rightarrow> Fulfilled None, s4))))"

text \<open>The callback given to \<open>setTimeout\<close>, run at clock reading \<open>t\<close>.\<close>

definition debounce_timerCallback ::
  "('a \<Rightarrow> error + 'r) \<Rightarrow> int \<Rightarrow> ('a, 'r) engine \<Rightarrow> ('a, 'r) engine" where
  "debounce_timerCallback fn t s =
     (case lastArgs s of
        Some argsToUse \<Rightarrow>
          (case debounce_executeFunction fn argsToUse (s\<lparr>lastExecTime := t, lastArgs := None\<rparr>) of
             (Inr r, s2) \<Rightarrow> clearPending (callResolve (Some r) s2)
           | (Inl e, s2) \<Rightarrow> clearPending (callReject e s2))
      | None \<Rightarrow> clearPending (callResolve (lastResult s) s))"

definition debounce_cancel :: "('a, 'r) engine \<Rightarrow> ('a, 'r) engine" where
  "debounce_cancel s = debounce_cleanup (callReject cancelError (clearTimer s))"

definition debounce_flush ::
  "('a \<Rightarrow> error + 'r) \<Rightarrow> ('a, 'r) engine \<Rightarrow> 'r outcome \<times> ('a, 'r) engine" where
  "debounce_flush fn s =
     (case lastArgs s of
        Some argsToUse \<Rightarrow>
          if \<not> sigAborted s then
            (let s1 = debounce_cleanup s;
                 s2 = s1\<lparr>calls := calls s1 @ [(argsToUse, lastExecTime s1)]\<rparr>
             in case fn argsToUse of
                  Inr r \<Rightarrow> (Fulfilled (Some r), s2\<lparr>lastResult := Some r\<rparr>)
                | Inl e \<Rightarrow> (Failed e, s2))
          else (Fulfilled (lastResult s), s)
      | None \<Rightarrow> (Fulfilled (lastResult s), s))"

text \<open>\<open>abortHandler\<close>: \<open>cleanup()\<close> runs first, then \<open>if (rejectPending) ...\<close>.\<close>

definition debounce_abortHandler :: "('a, 'r) engine \<Rightarrow> ('a, 'r) engine" where
  "debounce_abortHandler s = callReject abortError (debounce_cleanup s)"

text \<open>A burst: invocations at the given clock readings, due timers firing in between.\<close>

fun debounce_burst ::
  "config \<Rightarrow> ('a \<Rightarrow> error + 'r) \<Rightarrow> ('a, 'r) engine \<Rightarrow> (int \<times> 'a) list \<Rightarrow> ('a, 'r) engine" where
  "debounce_burst cfg fn s [] = s"
| "debounce_burst cfg fn s ((t, a) # es) =
     debounce_burst cfg fn
       (snd (asyncDebounced cfg fn t a (advance (debounce_timerCallback fn) t s))) es"

definition debounce_run ::
  "config \<Rightarrow> ('a \<Rightarrow> error + 'r) \<Rightarrow> ('a, 'r) engine \<Rightarrow> (int \<times> 'a) list \<Rightarrow> ('a, 'r) engine" where
  "debounce_run cfg fn s es = drainTimers (debounce_timerCallback fn) (debounce_burst cfg fn s es)"

section \<open>Throttle, high and medium precision\<close>

definition throttle_config :: "int \<Rightarrow> AsyncOptions \<Rightarrow> config" where
  "throttle_config w options =
     \<lparr> wait = w,
       leading = (case leadingOpt options of None \<Rightarrow> True | Some b \<Rightarrow> b),
       trailing = (case trailingOpt options of None \<Rightarrow> True | Some b \<Rightarrow> b),
       maxWait = maxWaitOpt options \<rparr>"

definition throttle_init :: "AsyncOptions \<Rightarrow> ('a, 'r) throttle_engine" where
  "throttle_init options =
     \<lparr> timeoutId = None, lastExecTime = 0, lastArgs = None, lastResult = None,
       pendingPromise = None, resolvePending = None, rejectPending = None,
       abortCleanup = True,
       abortSignal = map_option (\<lambda>b. AbortSignal b True) (abortSignalOpt options),
       timers = [], nextTimer = 1, promises = [], calls = [],
       hasExecutedInCurrentBurst = False \<rparr>"

definition throttleHighPrecision :: "int \<Rightarrow> AsyncOptions \<Rightarrow> config \<times> ('a, 'r) throttle_engine" where
  "throttleHighPrecision w options = (throttle_config w options, throttle_init options)"

definition throttleMediumPrecision :: "int \<Rightarrow> AsyncOptions \<Rightarrow> config \<times> ('a, 'r) throttle_engine" where
  "throttleMediumPrecision w options = (throttle_config w options, throttle_init options)"

definition throttle_cleanup :: "('a, 'r) throttle_engine \<Rightarrow> ('a, 'r) throttle_engine" where
  "throttle_cleanup s =
     (clearPending (runAbortCleanup (clearTimer s)))
       \<lparr>lastArgs := None, hasExecutedInCurrentBurst := False\<rparr>"

definition throttle_executeFunction ::
  "('a \<Rightarrow> error + 'r) \<Rightarrow> 'a \<Rightarrow> ('a, 'r) throttle_engine
     \<Rightarrow> (error + 'r) \<times> ('a, 'r) throttle_engine" where
  "throttle_executeFunction fn args s =
     (if sigAborted s then (Inl abortError, s)
      else
        (let s1 = s\<lparr>calls := calls s @ [(args, lastExecTime s)]\<rparr> in
         case fn args of
           Inr r \<Rightarrow> (Inr r, s1\<lparr>lastResult := Some r\<rparr>)
         | Inl e \<Rightarrow> (Inl e, s1)))"

text \<open>\<open>abortHandler\<close>: after \<open>cleanup()\<close> the test \<open>if (pendingPromise)\<close> finds nothing.\<close>

definition throttle_abortHandler :: "('a, 'r) throttle_engine \<Rightarrow> ('a, 'r) throttle_engine" where
  "throttle_abortHandler s =
     (let s1 = throttle_cleanup s
      in if pendingPromise s1 \<noteq> None then s1\<lparr>pendingPromise := None\<rparr> else s1)"

definition throttle_delay :: "config \<Rightarrow> int \<Rightarrow> int" where
  "throttle_delay cfg timeSinceLastExec =
     (if maxWaitSet cfg \<and> timeSinceLastExec > 0
      then min (wait cfg) (maxWaitValue cfg - timeSinceLastExec) else wait cfg)"

definition asyncThrottled ::
  "config \<Rightarrow> ('a \<Rightarrow> error + 'r) \<Rightarrow> int \<Rightarrow> 'a \<Rightarrow> ('a, 'r) throttle_engine
     \<Rightarrow> 'r outcome \<times> ('a, 'r) throttle_engine" where
  "asyncThrottled cfg fn now args s =
     (if sigAborted s then (Failed abortError, s)
      else
        (let timeSinceLastExec = now - lastExecTime s
         in if leading cfg \<and> (lastExecTime s = 0 \<or> timeSinceLastExec \<ge> wait cfg) then
              (let s1 = s\<lparr>lastExecTime := now, hasExecutedInCurrentBurst := True\<rparr>;
                   s2 = clearTimer s1;
                   s3 = (if pendingPromise s2 \<noteq> None then clearPending s2 else s2);
                   s4 = s3\<lparr>lastArgs := (if trailing cfg then Some args else None)\<rparr>
               in case throttle_executeFunction fn args s4 of
                    (Inr r, s5) \<Rightarrow> (Fulfilled (Some r), s5)
                  | (Inl e, s5) \<Rightarrow> (Failed e, s5))
            else if leading cfg \<and> hasExecutedInCurrentBurst s \<and> timeSinceLastExec < wait cfg
                    \<and> \<not> trailing cfg then
              (Fulfilled (lastResult s), s)
            else if trailing cfg then
              (let s1 = s\<lparr>lastArgs := Some args\<rparr>;
                   s2 = clearTimer s1;
                   s3 = (if pendingPromise s2 = None then newPromise s2 else s2);
                   s4 = armTimer now (throttle_delay cfg timeSinceLastExec) s3
               in (case pendingPromise s4 of Some p \<Rightarrow> Adopts p | None \<Rightarrow> Fulfilled None, s4))
            else (Fulfilled (lastResult s), s)))"

definition throttle_timerCallback ::
  "('a \<Rightarrow> error + 'r) \<Rightarrow> int \<Rightarrow> ('a, 'r) throttle_engine \<Rightarrow> ('a, 'r) throttle_engine" where
  "throttle_timerCallback fn t s =
     (case lastArgs s of
        Some argsToUse \<Rightarrow>
          if \<not> sigAborted s then
            (case throttle_executeFunction fn argsToUse
                    (s\<lparr>lastExecTime := t, lastArgs := None, hasExecutedInCurrentBurst := False\<rparr>) of
               (Inr r, s2) \<Rightarrow> clearPending (callResolve (Some r) s2)
             | (Inl e, s2) \<Rightarrow> clearPending (callReject e s2))
          else clearPending (callResolve (lastResult s) s)
      | None \<Rightarrow> clearPending (callResolve (lastResult s) s))"

definition throttle_cancel :: "('a, 'r) throttle_engine \<Rightarrow> ('a, 'r) throttle_engine" where
  "throttle_cancel s = clearPending (runAbortCleanup (callReject cancelError (clearTimer s)))"

definition throttle_flush ::
  "('a \<Rightarrow> error + 'r) \<Rightarrow> ('a, 'r) throttle_engine \<Rightarrow> 'r outcome \<times> ('a, 'r) throttle_engine" where
  "throttle_flush fn s =
     (let s0 = clearTimer s in
      case lastArgs s0 of
        Some argsToUse \<Rightarrow>
          if \<not> sigAborted s0 then
            (let s1 = s0\<lparr>lastArgs := None, calls := calls s0 @ [(argsToUse, lastExecTime s0)]\<rparr>
             in case fn argsToUse of
                  Inr r \<Rightarrow>
                    (Fulfilled (Some r), clearPending (callResolve (Some r) (s1\<lparr>lastResult := Some r\<rparr>)))
                | Inl e \<Rightarrow> (Failed e, clearPending (callReject e s1)))
          else (Fulfilled (lastResult s0), clearPending (callResolve (lastResult s0) s0))
      | None \<Rightarrow> (Fulfilled (lastResult s0), clearPending (callResolve (lastResult s0) s0)))"

section \<open>Throttle and debounce, low precision\<close>

text \<open>
  The low tier has no promise machinery: the closure holds \<open>lastExecTime\<close>, \<open>lastArgs\<close>
  and \<open>timeoutId\<close>, the wrapper returns nothing, and a failure of the wrapped operation
  is logged with \<open>console.warn\<close>.
\<close>

record 'a low_state =
  lowTimeoutId :: "nat option"
  lowLastExecTime :: int
  lowLastArgs :: "'a option"
  lowTimers :: timer_table
  lowNextTimer :: nat
  lowCalls :: "('a \<times> int) list"
  lowWarned :: "error list"

definition low_init :: "'a low_state" where
  "low_init =
     \<lparr> lowTimeoutId = None, lowLastExecTime = 0, lowLastArgs = None,
       lowTimers = [], lowNextTimer = 1, lowCalls = [], lowWarned = [] \<rparr>"

text \<open>\<open>const { leading = true, trailing = false } = options\<close>; \<open>maxWait\<close> is not read.\<close>

definition throttleLow_config :: "int \<Rightarrow> AsyncOptions \<Rightarrow> config" where
  "throttleLow_config w options =
     \<lparr> wait = w,
       leading = (case leadingOpt options of None \<Rightarrow> True | Some b \<Rightarrow> b),
       trailing = (case trailingOpt options of None \<Rightarrow> False | Some b \<Rightarrow> b),
       maxWait = None \<rparr>"

definition throttleLowPrecision :: "int \<Rightarrow> AsyncOptions \<Rightarrow> config \<times> 'a low_state" where
  "throttleLowPrecision w options = (throttleLow_config w options, low_init)"

text \<open>\<open>const { leading = false, trailing = true, maxWait } = options\<close>\<close>

definition debounceLowPrecision :: "int \<Rightarrow> AsyncOptions \<Rightarrow> config \<times> 'a low_state" where
  "debounceLowPrecision w options = (debounce_config w options, low_init)"

text \<open>One call of the wrapped operation inside \<open>try\<close>/\<open>catch\<close>.\<close>

definition low_call :: "('a \<Rightarrow> error + 'r) \<Rightarrow> 'a \<Rightarrow> 'a low_state \<Rightarrow> 'a low_state" where
  "low_call fn args s =
     (let s1 = s\<lparr>lowCalls := lowCalls s @ [(args, lowLastExecTime s)]\<rparr> in
      case fn args of
        Inr r \<Rightarrow> s1
      | Inl e \<Rightarrow> s1\<lparr>lowWarned := lowWarned s1 @ [e]\<rparr>)"

definition throttleLow_invoke ::
  "config \<Rightarrow> ('a \<Rightarrow> error + 'r) \<Rightarrow> int \<Rightarrow> 'a \<Rightarrow> 'a low_state \<Rightarrow> 'a low_state" where
  "throttleLow_invoke cfg fn now args s =
     (let timeSinceLastExec = now - lowLastExecTime s
      in if leading cfg \<and> timeSinceLastExec \<ge> wait cfg then
           low_call fn args (s\<lparr>lowLastExecTime := now\<rparr>)
         else if trailing cfg then
           (let s1 = s\<lparr>lowLastArgs := Some args\<rparr>;
                s2 = (case lowTimeoutId s1 of
                        Some h \<Rightarrow> s1\<lparr>lowTimers := clearTimeout h (lowTimers s1)\<rparr>
                      | None \<Rightarrow> s1)
            in s2\<lparr>lowTimeoutId := Some (lowNextTimer s2),
                  lowTimers := lowTimers s2
                     @ [(lowNextTimer s2, due now (max 0 (wait cfg - timeSinceLastExec)))],
                  lowNextTimer := Suc (lowNextTimer s2)\<rparr>)
         else s)"

definition throttleLow_timerCallback ::
  "('a \<Rightarrow> error + 'r) \<Rightarrow> int \<Rightarrow> 'a low_state \<Rightarrow> 'a low_state" where
  "throttleLow_timerCallback fn t s =
     (let s1 = s\<lparr>lowLastExecTime := t\<rparr>;
          s2 = (case lowLastArgs s1 of Some a \<Rightarrow> low_call fn a s1 | None \<Rightarrow> s1)
      in s2\<lparr>lowLastArgs := None, lowTimeoutId := None\<rparr>)"

section \<open>The dispatchers\<close>

text \<open>
  \<open>throttle\<close> and \<open>debounce\<close> read \<open>precision\<close> (default \<open>HIGH\<close>) and hand the rest of the
  options to the constructor of that tier. No path of a dispatcher or of a constructor
  raises; the sum type is there to say so.
\<close>

datatype ('a, 'r) throttled =
    PromiseThrottle PrecisionTier config "('a, 'r) throttle_engine"
  | FastThrottle config "'a low_state"

datatype ('a, 'r) debounced =
    PromiseDebounce PrecisionTier config "('a, 'r) engine"
  | FastDebounce config "'a low_state"

definition throttle :: "int \<Rightarrow> AsyncOptions \<Rightarrow> error + ('a, 'r) throttled" where
  "throttle w options =
     (case (case precisionOpt options of None \<Rightarrow> HIGH | Some p \<Rightarrow> p) of
        LOW \<Rightarrow> Inr (case throttleLowPrecision w options of (c, st) \<Rightarrow> FastThrottle c st)
      | MEDIUM \<Rightarrow> Inr (case throttleMediumPrecision w options of (c, st) \<Rightarrow> PromiseThrottle MEDIUM c st)
      | HIGH \<Rightarrow> Inr (case throttleHighPrecision w options of (c, st) \<Rightarrow> PromiseThrottle HIGH c st))"

definition debounce :: "int \<Rightarrow> AsyncOptions \<Rightarrow> error + ('a, 'r) debounced" where
  "debounce w options =
     (case (case precisionOpt options of None \<Rightarrow> HIGH | Some p \<Rightarrow> p) of
        LOW \<Rightarrow> Inr (case debounceLowPrecision w options of (c, st) \<Rightarrow> FastDebounce c st)
      | MEDIUM \<Rightarrow> Inr (case debounceMediumPrecision w options of (c, st) \<Rightarrow> PromiseDebounce MEDIUM c st)
      | HIGH \<Rightarrow> Inr (case debounceHighPrecision w options of (c, st) \<Rightarrow> PromiseDebounce HIGH c st))"

fun throttled_config :: "('a, 'r) throttled \<Rightarrow> config" where
  "throttled_config (PromiseThrottle tier c st) = c"
| "throttled_config (FastThrottle c st) = c"

section \<open>Invariants of the engine state and its events\<close>

text \<open>
  At most one timer is armed, and it is the one \<open>timeoutId\<close> holds; the three promise
  variables are set and cleared together and, while set, name a promise that has not
  been settled.
\<close>

definition armed_ok :: "('a, 'r, 'z) engine_scheme \<Rightarrow> bool" where
  "armed_ok s = (case timers s of [] \<Rightarrow> True | e # rest \<Rightarrow> rest = [] \<and> timeoutId s = Some (fst e))"

definition pending_ok :: "('a, 'r, 'z) engine_scheme \<Rightarrow> bool" where
  "pending_ok s =
     (case pendingPromise s of
        None \<Rightarrow> resolvePending s = None \<and> rejectPending s = None
      | Some p \<Rightarrow> resolvePending s = Some p \<and> rejectPending s = Some p
                  \<and> p < length (promises s) \<and> promises s ! p = Unsettled)"

definition wf :: "('a, 'r, 'z) engine_scheme \<Rightarrow> bool" where
  "wf s = (armed_ok s \<and> pending_ok s)"

text \<open>The events that reach a wrapper; a timer event runs the earliest armed timer.\<close>

datatype 'a event = Invoke int 'a | TimerFires | Cancel | Flush | SignalAborts

fun throttle_step ::
  "config \<Rightarrow> ('a \<Rightarrow> error + 'r) \<Rightarrow> ('a, 'r) throttle_engine \<Rightarrow> 'a event \<Rightarrow> ('a, 'r) throttle_engine" where
  "throttle_step cfg fn s (Invoke now a) = snd (asyncThrottled cfg fn now a s)"
| "throttle_step cfg fn s TimerFires =
     (case sort_key snd (timers s) of [] \<Rightarrow> s | e # rest \<Rightarrow> fireTimer (throttle_timerCallback fn) e s)"
| "throttle_step cfg fn s Cancel = throttle_cancel s"
| "throttle_step cfg fn s Flush = snd (throttle_flush fn s)"
| "throttle_step cfg fn s SignalAborts = signalAbort throttle_abortHandler s"

fun debounce_step ::
  "config \<Rightarrow> ('a \<Rightarrow> error + 'r) \<Rightarrow> ('a, 'r) engine \<Rightarrow> 'a event \<Rightarrow> ('a, 'r) engine" where
  "debounce_step cfg fn s (Invoke now a) = snd (asyncDebounced cfg fn now a s)"
| "debounce_step cfg fn s TimerFires =
     (case sort_key snd (timers s) of [] \<Rightarrow> s | e # rest \<Rightarrow> fireTimer (debounce_timerCallback fn) e s)"
| "debounce_step cfg fn s Cancel = debounce_cancel s"
| "debounce_step cfg fn s Flush = snd (debounce_flush fn s)"
| "debounce_step cfg fn s SignalAborts = signalAbort debounce_abortHandler s"

section \<open>Concrete operations and configurations used in the examples\<close>

definition noOptions :: AsyncOptions where
  "noOptions = \<lparr> leadingOpt = None, trailingOpt = None, maxWaitOpt = None,
                  abortSignalOpt = None, precisionOpt = None \<rparr>"

definition fn_ok :: "string \<Rightarrow> error + string" where
  "fn_ok a = Inr (''result:'' @ a)"

definition fn_fail :: "string \<Rightarrow> error + string" where
  "fn_fail a = Inl (Thrown ''boom'')"

text \<open>\<open>fn(batch)\<close> came back to \<open>flush\<close>: it did not throw synchronously.\<close>

definition returned :: "batch_result \<Rightarrow> bool" where
  "returned r = (case r of Threw e \<Rightarrow> False | _ \<Rightarrow> True)"

definition batch_cfg_ex :: batch_config where
  "batch_cfg_ex = \<lparr> batchWait = 1000, batchSize = 2, batchMaxWait = 3000 \<rparr>"

definition batch_cfg_timer :: batch_config where
  "batch_cfg_timer = \<lparr> batchWait = 100, batchSize = 5, batchMaxWait = 300 \<rparr>"

text \<open>States with an execution pending, reached by real invocations.\<close>

definition throttle_pending_ex :: "(string, string) throttle_engine" where
  "throttle_pending_ex =
     snd (asyncThrottled (throttle_config 100 noOptions) fn_ok 1050 ''b''
       (snd (asyncThrottled (throttle_config 100 noOptions) fn_ok 1000 ''a'' (throttle_init noOptions))))"

definition debounce_pending_ex :: "(string, string) engine" where
  "debounce_pending_ex =
     snd (asyncDebounced (debounce_config 100 noOptions) fn_ok 1000 ''a'' (debounce_init noOptions))"

definition leading_debounce_config :: config where
  "leading_debounce_config = debounce_config 100 (noOptions\<lparr>leadingOpt := Some True\<rparr>)"

text \<open>
  A burst is a non-empty list of invocations (clock reading, arguments), in order of
  arrival, every gap non-negative and strictly below \<open>w\<close>. \<open>in_burst dl a s\<close>: the one
  armed timer is the one in \<open>timeoutId\<close>, due at \<open>dl\<close>, and \<open>a\<close> are the stored arguments.
\<close>

fun gaps_ok :: "int \<Rightarrow> int \<Rightarrow> (int \<times> 'a) list \<Rightarrow> bool" where
  "gaps_ok w t0 [] = True"
| "gaps_ok w t0 ((t, a) # es) = (t0 \<le> t \<and> t - t0 < w \<and> gaps_ok w t es)"

fun burst_ok :: "int \<Rightarrow> (int \<times> 'a) list \<Rightarrow> bool" where
  "burst_ok w [] = False"
| "burst_ok w ((t, a) # es) = gaps_ok w t es"



definition realistic_burst :: "(int \<times> string) list" where
  "realistic_burst = [(5000, ''a''), (5050, ''b'')]"

definition early_burst :: "(int \<times> string) list" where
  "early_burst = [(10, ''a''), (60, ''b'')]"

definition maxWait_debounce_config :: config where
  "maxWait_debounce_config = debounce_config 100 (noOptions\<lparr>maxWaitOpt := Some 300\<rparr>)"


text \<open>Options used in the evaluations.\<close>

definition signalOptions :: AsyncOptions where
  "signalOptions = noOptions\<lparr>abortSignalOpt := Some False\<rparr>"

definition trailingOnly :: AsyncOptions where
  "trailingOnly = signalOptions\<lparr>leadingOpt := Some False, trailingOpt := Some True\<rparr>"

definition neitherEdge :: AsyncOptions where
  "neitherEdge = noOptions\<lparr>leadingOpt := Some False, trailingOpt := Some False\<rparr>"

definition lowOptions :: AsyncOptions where
  "lowOptions = noOptions\<lparr>precisionOpt := Some LOW\<rparr>"

fun debounced_config :: "('a, 'r) debounced \<Rightarrow> config" where
  "debounced_config (PromiseDebounce tier c st) = c"
| "debounced_config (FastDebounce c st) = c"

definition badOptions :: AsyncOptions where
  "badOptions = noOptions\<lparr>maxWaitOpt := Some (-1)\<rparr>"

section \<open>Collections of defining equations\<close>

lemmas helper_defs = callResolve_def callReject_def clearPending_def clearTimer_def newPromise_def
  armTimer_def runAbortCleanup_def settle_def clearTimeout_def

lemmas engine_defs = helper_defs due_def sigAborted_def maxWaitSet_def maxWaitValue_def isPending_def
  abortError_def cancelError_def

lemmas scenario_defs = signalOptions_def trailingOnly_def neitherEdge_def lowOptions_def noOptions_def
  debounce_config_def debounce_init_def throttle_config_def throttle_init_def fn_ok_def fn_fail_def

lemmas debounce_defs = asyncDebounced_def debounce_timerCallback_def debounce_executeFunction_def
  debounce_delay_def debounce_cleanup_def debounce_cancel_def debounce_flush_def
  debounce_abortHandler_def

lemmas throttle_defs = asyncThrottled_def throttle_timerCallback_def throttle_executeFunction_def
  throttle_delay_def throttle_cleanup_def throttle_cancel_def throttle_flush_def
  throttle_abortHandler_def

lemmas host_defs = signalAbort_def advance_def drainTimers_def fireTimer_def

section \<open>Properties of the batch throttle\<close>

lemma batch_flush_returned:
  "returned (fn (batch s)) \<Longrightarrow> batch s \<noteq> [] \<Longrightarrow>
   fst (batch_flush fn s) = None \<and>
   batch (snd (batch_flush fn s)) = [] \<and>
   firstBatchTime (snd (batch_flush fn s)) = 0 \<and>
   batchTimeoutId (snd (batch_flush fn s)) = None \<and>
   batchTimers (snd (batch_flush fn s)) = batchTimers s \<and>
   batchCalls (snd (batch_flush fn s)) = batchCalls s @ [batch s]"
  by (cases "fn (batch s)") (simp_all add: batch_flush_def returned_def Let_def)

lemma batch_clear_fields [simp]:
  "batch (batch_clear s) = batch s"
  "firstBatchTime (batch_clear s) = firstBatchTime s"
  "batchCalls (batch_clear s) = batchCalls s"
  "batchTimeoutId (batch_clear s) = batchTimeoutId s"
  "batchNextTimer (batch_clear s) = batchNextTimer s"
  by (simp_all add: batch_clear_def split: option.splits)

lemma batch_flush_hands_over:
  "batch s \<noteq> [] \<Longrightarrow> batchCalls (snd (batch_flush fn s)) = batchCalls s @ [batch s]"
  by (cases "fn (batch s)") (simp_all add: batch_flush_def Let_def)

text \<open>
  C8 (as stated): an invocation appends its arguments and flushes synchronously iff the
  buffer has reached \<open>batchSize\<close> or \<open>now - firstBatchTime \<ge> maxWait\<close>; the flush hands
  the whole buffer, in arrival order, to the batch function and then clears the buffer
  and \<open>firstBatchTime\<close>. The clearing is skipped when the batch function throws
  synchronously: with \<open>batchSize = 2\<close> the second invocation flushes, the function
  receives \<open>[7, 8]\<close> and throws, and the buffer still holds \<open>[7, 8]\<close> with
  \<open>firstBatchTime = 50\<close>.
\<close>

theorem batch_flush_keeps_buffer_on_throw:
  "batch_full batch_cfg_ex 60 (snd (batch_invoke batch_cfg_ex (\<lambda>b. Threw (Thrown ''boom'')) 50 (7::nat) batch_init))
   \<and> batchCalls (snd (batch_invoke batch_cfg_ex (\<lambda>b. Threw (Thrown ''boom'')) 60 8
         (snd (batch_invoke batch_cfg_ex (\<lambda>b. Threw (Thrown ''boom'')) 50 (7::nat) batch_init)))) = [[7, 8]]
   \<and> batch (snd (batch_invoke batch_cfg_ex (\<lambda>b. Threw (Thrown ''boom'')) 60 8
         (snd (batch_invoke batch_cfg_ex (\<lambda>b. Threw (Thrown ''boom'')) 50 (7::nat) batch_init)))) = [7, 8]
   \<and> firstBatchTime (snd (batch_invoke batch_cfg_ex (\<lambda>b. Threw (Thrown ''boom'')) 60 8
         (snd (batch_invoke batch_cfg_ex (\<lambda>b. Threw (Thrown ''boom'')) 50 (7::nat) batch_init)))) = 50"
  by (simp add: batch_full_def batch_cfg_ex_def batch_init_def batch_invoke_def
        batch_clear_def batch_flush_def due_def clearTimeout_def Let_def)

text \<open>
  C8 (amended): an invocation appends its arguments to the buffer and flushes
  synchronously iff the buffer has then reached \<open>batchSize\<close> or
  \<open>now - firstBatchTime \<ge> maxWait\<close>; the flush hands the whole buffer, in arrival order,
  to the batch function, and when that function returns (nothing, or a promise,
  fulfilled or rejected) the buffer is then empty and \<open>firstBatchTime\<close> is 0. Without a
  flush nothing is called, the extended buffer is kept and a timer is armed with the
  delay \<open>wait\<close>.
\<close>

theorem batch_invoke_flushes_iff:
  "(batch_full cfg now s \<longrightarrow>
      batch_invoke cfg fn now args s
        = batch_flush fn (batch_clear (s\<lparr>firstBatchTime := (if batch s = [] then now else firstBatchTime s),
                                           batch := batch s @ [args]\<rparr>))
      \<and> batchCalls (snd (batch_invoke cfg fn now args s)) = batchCalls s @ [batch s @ [args]]
      \<and> (returned (fn (batch s @ [args])) \<longrightarrow>
            batch (snd (batch_invoke cfg fn now args s)) = []
            \<and> firstBatchTime (snd (batch_invoke cfg fn now args s)) = 0))
   \<and> (\<not> batch_full cfg now s \<longrightarrow>
        batchCalls (snd (batch_invoke cfg fn now args s)) = batchCalls s
        \<and> batch (snd (batch_invoke cfg fn now args s)) = batch s @ [args]
        \<and> (\<exists>h. batchTimeoutId (snd (batch_invoke cfg fn now args s)) = Some h
               \<and> (h, due now (batchWait cfg)) \<in> set (batchTimers (snd (batch_invoke cfg fn now args s)))))"
proof (cases "batch_full cfg now s")
  case True
  let ?s2 = "batch_clear (s\<lparr>firstBatchTime := (if batch s = [] then now else firstBatchTime s),
                             batch := batch s @ [args]\<rparr>)"
  have inv: "batch_invoke cfg fn now args s = batch_flush fn ?s2"
    using True by (auto simp: batch_invoke_def batch_full_def Let_def)
  have b: "batch ?s2 = batch s @ [args]" "batchCalls ?s2 = batchCalls s" by simp_all
  then have ne: "batch ?s2 \<noteq> []" by simp
  have c: "batchCalls (snd (batch_flush fn ?s2)) = batchCalls s @ [batch s @ [args]]"
    using batch_flush_hands_over [OF ne, of fn] b by simp
  have "batch (snd (batch_flush fn ?s2)) = [] \<and> firstBatchTime (snd (batch_flush fn ?s2)) = 0"
    if "returned (fn (batch s @ [args]))"
    using batch_flush_returned [of fn ?s2] that b ne by simp
  with inv c True show ?thesis by simp
next
  case False
  then show ?thesis
    by (auto simp: batch_invoke_def batch_full_def Let_def)
qed

theorem batch_invoke_flushes_iff_witness:
  "\<not> batch_full batch_cfg_ex 50 (batch_init :: nat batch_state)
   \<and> batch (snd (batch_invoke batch_cfg_ex (\<lambda>b. PromiseRejected (Thrown ''late'')) 50 7 batch_init)) = [7::nat]
   \<and> batchCalls (snd (batch_invoke batch_cfg_ex (\<lambda>b. PromiseRejected (Thrown ''late'')) 50 7 (batch_init :: nat batch_state))) = []
   \<and> batch_full batch_cfg_ex 60 (snd (batch_invoke batch_cfg_ex (\<lambda>b. PromiseRejected (Thrown ''late'')) 50 (7::nat) batch_init))
   \<and> returned ((\<lambda>b. PromiseRejected (Thrown ''late''))
         (batch (snd (batch_invoke batch_cfg_ex (\<lambda>b. PromiseRejected (Thrown ''late'')) 50 (7::nat) batch_init)) @ [8]))
   \<and> batchCalls (snd (batch_invoke batch_cfg_ex (\<lambda>b. PromiseRejected (Thrown ''late'')) 60 8
         (snd (batch_invoke batch_cfg_ex (\<lambda>b. PromiseRejected (Thrown ''late'')) 50 (7::nat) batch_init)))) = [[7, 8]]
   \<and> batch (snd (batch_invoke batch_cfg_ex (\<lambda>b. PromiseRejected (Thrown ''late'')) 60 8
         (snd (batch_invoke batch_cfg_ex (\<lambda>b. PromiseRejected (Thrown ''late'')) 50 (7::nat) batch_init)))) = []
   \<and> firstBatchTime (snd (batch_invoke batch_cfg_ex (\<lambda>b. PromiseRejected (Thrown ''late'')) 60 8
         (snd (batch_invoke batch_cfg_ex (\<lambda>b. PromiseRejected (Thrown ''late'')) 50 (7::nat) batch_init)))) = 0"
  using batch_invoke_flushes_iff [of batch_cfg_ex 50 "batch_init :: nat batch_state" "\<lambda>b. PromiseRejected (Thrown ''late'')" 7]
        batch_invoke_flushes_iff [of batch_cfg_ex 60
          "snd (batch_invoke batch_cfg_ex (\<lambda>b. PromiseRejected (Thrown ''late'')) 50 (7::nat) batch_init)"
          "\<lambda>b. PromiseRejected (Thrown ''late'')" 8]
  by (simp add: returned_def batch_full_def batch_cfg_ex_def batch_init_def batch_invoke_def
        batch_clear_def batch_flush_def due_def clearTimeout_def Let_def)

lemma batch_flush_calls:
  "batchCalls (snd (batch_flush fn s)) = batchCalls s
   \<or> (batch s \<noteq> [] \<and> batchCalls (snd (batch_flush fn s)) = batchCalls s @ [batch s])"
  by (cases "fn (batch s)") (simp_all add: batch_flush_def Let_def)

lemma batch_flush_cleared:
  "batchCalls (snd (batch_flush fn s)) \<noteq> batchCalls s \<Longrightarrow> returned (fn (batch s)) \<Longrightarrow>
   batch (snd (batch_flush fn s)) = [] \<and> firstBatchTime (snd (batch_flush fn s)) = 0"
  by (cases "fn (batch s)") (simp_all add: batch_flush_def Let_def returned_def split: if_splits)

text \<open>Every step either leaves the call log alone or ends in a \<open>flush\<close>.\<close>

lemma batch_step_shape:
  "(\<exists>t. batch_step cfg fn s e = snd (batch_flush fn t) \<and> batchCalls t = batchCalls s)
   \<or> batchCalls (batch_step cfg fn s e) = batchCalls s"
proof (cases e)
  case (BInvoke now args)
  then show ?thesis
    by (cases "batch_full cfg now s")
       (auto simp: batch_invoke_def batch_full_def Let_def)
next
  case BTimer
  then show ?thesis
    by (cases "batchTimers s") (auto simp: batch_timer_def)
qed

lemma batch_step_nonempty:
  assumes "\<forall>b\<in>set (batchCalls s). b \<noteq> []"
  shows "\<forall>b\<in>set (batchCalls (batch_step cfg fn s e)). b \<noteq> []"
  using batch_step_shape [of cfg fn s e] assms
proof (elim disjE exE conjE)
  fix t
  assume st: "batch_step cfg fn s e = snd (batch_flush fn t)" and c: "batchCalls t = batchCalls s"
  from batch_flush_calls [of fn t] show ?thesis
    using st c assms by auto
next
  assume "batchCalls (batch_step cfg fn s e) = batchCalls s"
  then show ?thesis using assms by simp
qed

lemma batch_run_nonempty: "\<forall>b\<in>set (batchCalls (batch_run cfg fn es)). b \<noteq> []"
proof (induction es rule: rev_induct)
  case Nil
  show ?case by (simp add: batch_run_def batch_init_def)
next
  case (snoc e es)
  have "batch_run cfg fn (es @ [e]) = batch_step cfg fn (batch_run cfg fn es) e"
    by (simp add: batch_run_def)
  with batch_step_nonempty [OF snoc.IH] show ?case by simp
qed

lemma batch_step_cleared:
  assumes "batchCalls (batch_step cfg fn s e) \<noteq> batchCalls s"
    and "returned (fn (last (batchCalls (batch_step cfg fn s e))))"
  shows "batch (batch_step cfg fn s e) = [] \<and> firstBatchTime (batch_step cfg fn s e) = 0"
proof -
  from batch_step_shape [of cfg fn s e] assms(1)
  obtain t where st: "batch_step cfg fn s e = snd (batch_flush fn t)"
    and c: "batchCalls t = batchCalls s" by auto
  from batch_flush_calls [of fn t] assms(1) st c
  have "batchCalls (snd (batch_flush fn t)) = batchCalls t @ [batch t]" by auto
  with assms st c have "returned (fn (batch t))" "batchCalls (snd (batch_flush fn t)) \<noteq> batchCalls t"
    by simp_all
  from batch_flush_cleared [OF this(2) this(1)] st show ?thesis by simp
qed

text \<open>
  C10 (as stated): the batch function is never invoked with an empty buffer, and
  immediately after every batch-function invocation the buffer is empty and
  \<open>firstBatchTime\<close> is 0. The second half fails when the batch function throws
  synchronously: the timer fires, the function receives \<open>[1]\<close> and throws, and the buffer
  still holds \<open>[1]\<close> with \<open>firstBatchTime = 5\<close>.
\<close>

theorem batch_timer_throw_leaves_buffer:
  "batchCalls (batch_run batch_cfg_timer (\<lambda>b. Threw (Thrown ''boom'')) [BInvoke 5 (1::nat), BTimer]) = [[1]]
   \<and> batch (batch_run batch_cfg_timer (\<lambda>b. Threw (Thrown ''boom'')) [BInvoke 5 (1::nat), BTimer]) = [1]
   \<and> firstBatchTime (batch_run batch_cfg_timer (\<lambda>b. Threw (Thrown ''boom'')) [BInvoke 5 (1::nat), BTimer]) = 5"
  by (simp add: batch_cfg_timer_def batch_run_def batch_init_def batch_invoke_def
        batch_timer_def batch_clear_def batch_flush_def due_def clearTimeout_def Let_def)

text \<open>
  C10 (amended): over every sequence of invocations and timer fires, the batch function
  is never invoked with an empty buffer, and after every step in which the batch
  function was invoked and returned (did not throw synchronously) the buffer is empty
  and \<open>firstBatchTime\<close> is 0.
\<close>

theorem batch_fn_never_empty_then_cleared:
  "(\<forall>b\<in>set (batchCalls (batch_run cfg fn es)). b \<noteq> [])
   \<and> (batchCalls (batch_step cfg fn (batch_run cfg fn es) e) \<noteq> batchCalls (batch_run cfg fn es)
        \<and> returned (fn (last (batchCalls (batch_step cfg fn (batch_run cfg fn es) e))))
      \<longrightarrow> batch (batch_step cfg fn (batch_run cfg fn es) e) = []
          \<and> firstBatchTime (batch_step cfg fn (batch_run cfg fn es) e) = 0)"
  using batch_run_nonempty [of cfg fn es] batch_step_cleared [of cfg fn "batch_run cfg fn es" e]
  by blast

theorem batch_fn_never_empty_then_cleared_witness:
  "batchCalls (batch_run batch_cfg_timer (\<lambda>b. Void) [BInvoke 0 (1::nat), BInvoke 10 2]) = []
   \<and> batch (batch_run batch_cfg_timer (\<lambda>b. Void) [BInvoke 0 (1::nat), BInvoke 10 2]) = [1, 2]
   \<and> batchCalls (batch_step batch_cfg_timer (\<lambda>b. Void)
        (batch_run batch_cfg_timer (\<lambda>b. Void) [BInvoke 0 (1::nat), BInvoke 10 2]) BTimer) = [[1, 2]]
   \<and> returned ((\<lambda>b. Void) (last (batchCalls (batch_step batch_cfg_timer (\<lambda>b. Void)
        (batch_run batch_cfg_timer (\<lambda>b. Void) [BInvoke 0 (1::nat), BInvoke 10 2]) BTimer))))
   \<and> batch (batch_step batch_cfg_timer (\<lambda>b. Void)
        (batch_run batch_cfg_timer (\<lambda>b. Void) [BInvoke 0 (1::nat), BInvoke 10 2]) BTimer) = []
   \<and> firstBatchTime (batch_step batch_cfg_timer (\<lambda>b. Void)
        (batch_run batch_cfg_timer (\<lambda>b. Void) [BInvoke 0 (1::nat), BInvoke 10 2]) BTimer) = 0"
  using batch_fn_never_empty_then_cleared
    [of batch_cfg_timer "\<lambda>b. Void" "[BInvoke 0 (1::nat), BInvoke 10 2]" BTimer]
  by (simp add: returned_def batch_cfg_timer_def batch_run_def batch_init_def batch_invoke_def
        batch_timer_def batch_clear_def batch_flush_def due_def clearTimeout_def Let_def)

section \<open>Invariants hold in every reachable state\<close>

lemma throttle_cancel_props:
  assumes "wf s"
  shows "timers (throttle_cancel s) = []" "timeoutId (throttle_cancel s) = None"
    "pendingPromise s = Some p \<Longrightarrow> promises (throttle_cancel s) ! p = Rejected cancelError"
    "\<not> isPending (throttle_cancel s)"
    "resolvePending (throttle_cancel s) = None" "rejectPending (throttle_cancel s) = None"
    "lastArgs (throttle_cancel s) = lastArgs s"
    "lastResult (throttle_cancel s) = lastResult s"
    "calls (throttle_cancel s) = calls s"
    "wf (throttle_cancel s)"
  using assms
  by (auto simp: wf_def armed_ok_def pending_ok_def throttle_cancel_def isPending_def helper_defs
       split: list.splits option.splits)

lemma debounce_cancel_props:
  assumes "wf s"
  shows "timers (debounce_cancel s) = []" "timeoutId (debounce_cancel s) = None"
    "pendingPromise s = Some p \<Longrightarrow> promises (debounce_cancel s) ! p = Rejected cancelError"
    "\<not> isPending (debounce_cancel s)"
    "resolvePending (debounce_cancel s) = None" "rejectPending (debounce_cancel s) = None"
    "lastArgs (debounce_cancel s) = None"
    "lastResult (debounce_cancel s) = lastResult s"
    "calls (debounce_cancel s) = calls s"
    "wf (debounce_cancel s)"
  using assms
  by (auto simp: wf_def armed_ok_def pending_ok_def debounce_cancel_def debounce_cleanup_def isPending_def helper_defs
       split: list.splits option.splits)

lemma advance_idle: "timers s = [] \<Longrightarrow> advance cb t s = s"
  by (simp add: advance_def)

lemma armed_ok_cong:
  "timers s' = timers s \<Longrightarrow> timeoutId s' = timeoutId s \<Longrightarrow> armed_ok s' = armed_ok s"
  by (simp add: armed_ok_def split: option.splits list.splits)

lemma pending_ok_cong:
  "pendingPromise s' = pendingPromise s \<Longrightarrow> resolvePending s' = resolvePending s \<Longrightarrow>
   rejectPending s' = rejectPending s \<Longrightarrow> promises s' = promises s \<Longrightarrow>
   pending_ok s' = pending_ok s"
  by (simp add: pending_ok_def split: option.splits list.splits)

lemma pending_ok_clearPending [simp]: "pending_ok (clearPending s)"
  by (simp add: pending_ok_def clearPending_def split: option.splits list.splits)

lemma pending_ok_newPromise [simp]: "pending_ok (newPromise s)"
  by (simp add: pending_ok_def newPromise_def split: option.splits list.splits)

lemma armed_ok_clearPending [simp]: "armed_ok (clearPending s) = armed_ok s"
  by (simp add: armed_ok_def clearPending_def split: option.splits list.splits)

lemma armed_ok_newPromise [simp]: "armed_ok (newPromise s) = armed_ok s"
  by (simp add: armed_ok_def newPromise_def split: option.splits list.splits)

lemma armed_ok_callResolve [simp]: "armed_ok (callResolve v s) = armed_ok s"
  by (simp add: armed_ok_def callResolve_def split: option.splits list.splits)

lemma armed_ok_callReject [simp]: "armed_ok (callReject e s) = armed_ok s"
  by (simp add: armed_ok_def callReject_def split: option.splits list.splits)

lemma armed_ok_runAbortCleanup [simp]: "armed_ok (runAbortCleanup s) = armed_ok s"
  by (simp add: armed_ok_def runAbortCleanup_def split: option.splits list.splits)

lemma pending_ok_runAbortCleanup [simp]: "pending_ok (runAbortCleanup s) = pending_ok s"
  by (simp add: pending_ok_def runAbortCleanup_def split: option.splits list.splits)

lemma pending_ok_clearTimer [simp]: "pending_ok (clearTimer s) = pending_ok s"
  by (simp add: pending_ok_def clearTimer_def split: option.splits list.splits)

lemma pending_ok_armTimer [simp]: "pending_ok (armTimer now d s) = pending_ok s"
  by (simp add: pending_ok_def armTimer_def split: option.splits list.splits)

lemma timers_clearTimer: "armed_ok s \<Longrightarrow> timers (clearTimer s) = []"
  by (auto simp: armed_ok_def clearTimer_def clearTimeout_def split: list.splits option.splits)

lemma armed_ok_idle: "timers s = [] \<Longrightarrow> armed_ok s"
  by (simp add: armed_ok_def split: option.splits list.splits)

lemma armed_ok_armTimer: "timers s = [] \<Longrightarrow> armed_ok (armTimer now d s)"
  by (simp add: armed_ok_def armTimer_def split: option.splits list.splits)

lemma timers_newPromise [simp]: "timers (newPromise s) = timers s"
  by (simp add: newPromise_def)

lemma timers_clearPending [simp]: "timers (clearPending s) = timers s"
  by (simp add: clearPending_def)

lemma timers_callResolve [simp]: "timers (callResolve v s) = timers s"
  by (simp add: callResolve_def split: option.splits)

lemma timers_callReject [simp]: "timers (callReject e s) = timers s"
  by (simp add: callReject_def split: option.splits)

lemma timers_runAbortCleanup [simp]: "timers (runAbortCleanup s) = timers s"
  by (simp add: runAbortCleanup_def)

lemma throttle_exec_timers [simp]:
  "timers (snd (throttle_executeFunction fn a s)) = timers s"
  by (simp add: throttle_executeFunction_def Let_def split: sum.splits)

lemma debounce_exec_timers [simp]:
  "timers (snd (debounce_executeFunction fn a s)) = timers s"
  by (simp add: debounce_executeFunction_def Let_def split: sum.splits)

lemma throttle_exec_pending_ok [simp]:
  "pending_ok (snd (throttle_executeFunction fn a s)) = pending_ok s"
  by (simp add: throttle_executeFunction_def pending_ok_def Let_def split: sum.splits option.splits list.splits)

lemma debounce_exec_pending_ok [simp]:
  "pending_ok (snd (debounce_executeFunction fn a s)) = pending_ok s"
  by (simp add: debounce_executeFunction_def pending_ok_def Let_def split: sum.splits option.splits list.splits)

lemma snd_asyncThrottled:
  "snd (asyncThrottled cfg fn now a s) =
     (if sigAborted s then s
      else if leading cfg \<and> (lastExecTime s = 0 \<or> now - lastExecTime s \<ge> wait cfg) then
        snd (throttle_executeFunction fn a
          ((if pendingPromise (clearTimer (s\<lparr>lastExecTime := now, hasExecutedInCurrentBurst := True\<rparr>)) \<noteq> None
            then clearPending (clearTimer (s\<lparr>lastExecTime := now, hasExecutedInCurrentBurst := True\<rparr>))
            else clearTimer (s\<lparr>lastExecTime := now, hasExecutedInCurrentBurst := True\<rparr>))
           \<lparr>lastArgs := (if trailing cfg then Some a else None)\<rparr>))
      else if trailing cfg then
        armTimer now (throttle_delay cfg (now - lastExecTime s))
          (if pendingPromise (clearTimer (s\<lparr>lastArgs := Some a\<rparr>)) = None
           then newPromise (clearTimer (s\<lparr>lastArgs := Some a\<rparr>))
           else clearTimer (s\<lparr>lastArgs := Some a\<rparr>))
      else s)"
proof -
  have pair: "snd (case x of (Inr r, s5) \<Rightarrow> (f r, s5) | (Inl e, s5) \<Rightarrow> (g e, s5)) = snd x"
    for x :: "(error + 'b) \<times> ('a, 'b) throttle_engine" and f g
    by (cases x; cases "fst x") auto
  show ?thesis
    unfolding asyncThrottled_def Let_def
    by (simp only: pair snd_conv if_distrib [of snd] split: if_splits) auto
qed

lemma wf_asyncThrottled:
  assumes "wf s"
  shows "wf (snd (asyncThrottled cfg fn now a s))"
proof -
  from assms have a: "armed_ok s" and p: "pending_ok s" by (simp_all add: wf_def)
  let ?lead = "s\<lparr>lastExecTime := now, hasExecutedInCurrentBurst := True\<rparr>"
  have al: "armed_ok ?lead" using a by (simp add: armed_ok_def split: option.splits list.splits)
  have pl: "pending_ok ?lead" using p by (simp add: pending_ok_def split: option.splits list.splits)
  let ?s3 = "if pendingPromise (clearTimer ?lead) \<noteq> None then clearPending (clearTimer ?lead)
             else clearTimer ?lead"
  have t3: "timers ?s3 = []" using timers_clearTimer [OF al] by simp
  have p3: "pending_ok ?s3" using pl by simp
  let ?s4 = "?s3\<lparr>lastArgs := (if trailing cfg then Some a else None)\<rparr>"
  have "timers ?s4 = []" using t3 by simp
  moreover have "pending_ok ?s4 = pending_ok ?s3" by (rule pending_ok_cong) simp_all
  ultimately have lead: "wf (snd (throttle_executeFunction fn a ?s4))"
    using p3 by (simp add: wf_def armed_ok_idle)
  let ?t1 = "s\<lparr>lastArgs := Some a\<rparr>"
  have at: "armed_ok ?t1" using a by (simp add: armed_ok_def split: option.splits list.splits)
  have pt: "pending_ok ?t1" using p by (simp add: pending_ok_def split: option.splits list.splits)
  let ?t3 = "if pendingPromise (clearTimer ?t1) = None then newPromise (clearTimer ?t1) else clearTimer ?t1"
  have "timers ?t3 = []" using timers_clearTimer [OF at] by simp
  moreover have "pending_ok ?t3" using pt by simp
  ultimately have trail: "wf (armTimer now d ?t3)" for d
    by (simp add: wf_def armed_ok_armTimer)
  show ?thesis
    unfolding snd_asyncThrottled using assms lead trail by presburger
qed

lemma wf_throttle_timerCallback:
  assumes "pending_ok s" "timers s = []"
  shows "wf (throttle_timerCallback fn t s)"
proof -
  have pair: "P (case x of (Inr r, s2) \<Rightarrow> f r s2 | (Inl e, s2) \<Rightarrow> g e s2)"
    if "\<And>r. P (f r (snd x))" "\<And>e. P (g e (snd x))"
    for x :: "(error + 'b) \<times> ('a, 'b) throttle_engine" and f g P
    using that by (cases x; cases "fst x") auto
  have "wf (case throttle_executeFunction fn a s' of
              (Inr r, s2) \<Rightarrow> clearPending (callResolve (Some r) s2)
            | (Inl e, s2) \<Rightarrow> clearPending (callReject e s2))"
    if "timers s' = []" for a s'
    by (rule pair) (simp_all add: wf_def armed_ok_idle that)
  moreover have "wf (clearPending (callResolve (lastResult s) s))"
    using assms by (simp add: wf_def armed_ok_idle)
  ultimately show ?thesis
    using assms by (simp add: throttle_timerCallback_def split: option.splits)
qed

lemma wf_throttle_fire:
  assumes "wf s"
  shows "wf (case sort_key snd (timers s) of [] \<Rightarrow> s | e # rest \<Rightarrow> fireTimer (throttle_timerCallback fn) e s)"
proof (cases "timers s")
  case Nil
  then show ?thesis using assms by simp
next
  case (Cons e rest)
  with assms have r: "rest = []" by (simp add: wf_def armed_ok_def)
  have "pending_ok (s\<lparr>timers := []\<rparr>) = pending_ok s" by (rule pending_ok_cong) simp_all
  then have "wf (throttle_timerCallback fn (snd e) (s\<lparr>timers := []\<rparr>))"
    using assms by (intro wf_throttle_timerCallback) (simp_all add: wf_def)
  then show ?thesis using Cons r by (simp add: fireTimer_def)
qed

lemma wf_throttle_flush: "wf s \<Longrightarrow> wf (snd (throttle_flush fn s))"
proof -
  assume w: "wf s"
  then have t0: "timers (clearTimer s) = []" by (simp add: wf_def timers_clearTimer)
  have "wf (clearPending x)" if "timers x = []" for x :: "('a, 'b) throttle_engine"
    using that by (simp add: wf_def armed_ok_idle)
  then show ?thesis
    using t0 by (simp add: throttle_flush_def Let_def split: option.splits sum.splits)
qed

lemma wf_throttle_abort: "wf s \<Longrightarrow> wf (signalAbort throttle_abortHandler s)"
proof -
  assume w: "wf s"
  have c: "armed_ok (s\<lparr>abortSignal := x\<rparr>) = armed_ok s" for x by (rule armed_ok_cong) simp_all
  have k: "wf (throttle_cleanup t)" if "armed_ok t" for t :: "('a, 'b) throttle_engine"
  proof -
    have "timers (throttle_cleanup t) = []"
      using timers_clearTimer [OF that] by (simp add: throttle_cleanup_def)
    moreover have "pending_ok (throttle_cleanup t) = pending_ok (clearPending (runAbortCleanup (clearTimer t)))"
      unfolding throttle_cleanup_def by (rule pending_ok_cong) simp_all
    ultimately show ?thesis by (simp add: wf_def armed_ok_idle)
  qed
  have pn: "pendingPromise (throttle_cleanup t) = None" for t :: "('a, 'b) throttle_engine"
    by (simp add: throttle_cleanup_def clearPending_def)
  have p: "pending_ok (s\<lparr>abortSignal := x\<rparr>) = pending_ok s" for x by (rule pending_ok_cong) simp_all
  show ?thesis
    using w k [of "s\<lparr>abortSignal := Some (AbortSignal True False)\<rparr>"] c p
    by (simp add: signalAbort_def throttle_abortHandler_def Let_def pn wf_def split: option.splits)
qed

lemma wf_throttle_step: "wf s \<Longrightarrow> wf (throttle_step cfg fn s e)"
  by (cases e) (simp_all add: wf_asyncThrottled wf_throttle_fire throttle_cancel_props(10) wf_throttle_flush wf_throttle_abort)

lemma wf_throttle_init: "wf (throttle_init options)"
  by (simp add: wf_def armed_ok_def pending_ok_def throttle_init_def)

lemma wf_throttle_reachable: "wf (foldl (throttle_step cfg fn) (throttle_init options) es)"
  by (induction es rule: rev_induct) (simp_all add: wf_throttle_init wf_throttle_step)

lemma exec_pair_cases:
  assumes "\<And>r. P (f r (snd x))" "\<And>e. P (g e (snd x))"
  shows "P (case x of (Inr r, s2) \<Rightarrow> f r s2 | (Inl e, s2) \<Rightarrow> g e s2)"
  using assms by (cases x; cases "fst x") auto

lemma wf_asyncDebounced:
  assumes "wf s"
  shows "wf (snd (asyncDebounced cfg fn now a s))"
proof (cases "sigAborted s")
  case True
  then show ?thesis using assms by (simp add: asyncDebounced_def)
next
  case False
  from assms have a: "armed_ok s" and p: "pending_ok s" by (simp_all add: wf_def)
  let ?s2 = "(clearTimer s)\<lparr>lastArgs := Some a\<rparr>"
  let ?s3 = "if pendingPromise ?s2 = None then newPromise ?s2 else ?s2"
  have t2: "timers ?s2 = []" using timers_clearTimer [OF a] by simp
  have "pending_ok ?s2 = pending_ok (clearTimer s)" by (rule pending_ok_cong) simp_all
  then have p2: "pending_ok ?s2" using p by simp
  have t3: "timers ?s3 = []" using t2 by simp
  have p3: "pending_ok ?s3" using p2 by simp
  have "wf (snd (case debounce_executeFunction fn a x of
                 (Inr r, s5) \<Rightarrow> (Fulfilled (Some r), clearPending (callResolve (Some r) s5))
               | (Inl e, s5) \<Rightarrow> (Failed e, clearPending (callReject e s5))))"
    if "timers x = []" for x
    by (rule exec_pair_cases) (simp_all add: wf_def armed_ok_idle that)
  moreover have "timers (?s3\<lparr>lastExecTime := now\<rparr>) = []" using t3 by simp
  ultimately have lead: "wf (snd (case debounce_executeFunction fn a (?s3\<lparr>lastExecTime := now\<rparr>) of
                 (Inr r, s5) \<Rightarrow> (Fulfilled (Some r), clearPending (callResolve (Some r) s5))
               | (Inl e, s5) \<Rightarrow> (Failed e, clearPending (callReject e s5))))"
    by blast
  have trail: "wf (armTimer now d ?s3)" for d
    using t3 p3 by (simp add: wf_def armed_ok_armTimer)
  have idle: "wf ?s3" using t3 p3 by (simp add: wf_def armed_ok_idle)
  show ?thesis
    using False lead trail idle
    by (simp add: asyncDebounced_def Let_def)
qed

lemma wf_debounce_timerCallback:
  assumes "pending_ok s" "timers s = []"
  shows "wf (debounce_timerCallback fn t s)"
proof -
  have "wf (case debounce_executeFunction fn a s' of
              (Inr r, s2) \<Rightarrow> clearPending (callResolve (Some r) s2)
            | (Inl e, s2) \<Rightarrow> clearPending (callReject e s2))"
    if "timers s' = []" for a s'
    by (rule exec_pair_cases) (simp_all add: wf_def armed_ok_idle that)
  moreover have "wf (clearPending (callResolve (lastResult s) s))"
    using assms by (simp add: wf_def armed_ok_idle)
  ultimately show ?thesis
    using assms by (simp add: debounce_timerCallback_def split: option.splits)
qed

lemma wf_debounce_fire:
  assumes "wf s"
  shows "wf (case sort_key snd (timers s) of [] \<Rightarrow> s | e # rest \<Rightarrow> fireTimer (debounce_timerCallback fn) e s)"
proof (cases "timers s")
  case Nil
  then show ?thesis using assms by simp
next
  case (Cons e rest)
  with assms have r: "rest = []" by (simp add: wf_def armed_ok_def)
  have "pending_ok (s\<lparr>timers := []\<rparr>) = pending_ok s" by (rule pending_ok_cong) simp_all
  then have "wf (debounce_timerCallback fn (snd e) (s\<lparr>timers := []\<rparr>))"
    using assms by (intro wf_debounce_timerCallback) (simp_all add: wf_def)
  then show ?thesis using Cons r by (simp add: fireTimer_def)
qed

lemma wf_debounce_cleanup:
  assumes "armed_ok t"
  shows "wf (debounce_cleanup t)"
proof -
  have "timers (debounce_cleanup t) = []"
    using timers_clearTimer [OF assms] by (simp add: debounce_cleanup_def)
  moreover have "pending_ok (debounce_cleanup t) = pending_ok (clearPending (runAbortCleanup (clearTimer t)))"
    unfolding debounce_cleanup_def by (rule pending_ok_cong) simp_all
  ultimately show ?thesis by (simp add: wf_def armed_ok_idle)
qed

lemma wf_debounce_flush: "wf s \<Longrightarrow> wf (snd (debounce_flush fn s))"
proof -
  assume w: "wf s"
  then have "armed_ok s" by (simp add: wf_def)
  then have k: "wf (debounce_cleanup s)" by (rule wf_debounce_cleanup)
  have "wf (x\<lparr>calls := c\<rparr>) = wf x" "wf (x\<lparr>calls := c, lastResult := r\<rparr>) = wf x"
    for x :: "('a, 'b) engine" and c r
    by (simp_all add: wf_def armed_ok_def pending_ok_def split: option.splits list.splits)
  then show ?thesis
    using w k by (simp add: debounce_flush_def Let_def split: option.splits sum.splits)
qed

lemma wf_debounce_abort: "wf s \<Longrightarrow> wf (signalAbort debounce_abortHandler s)"
proof -
  assume w: "wf s"
  have c: "armed_ok (s\<lparr>abortSignal := x\<rparr>) = armed_ok s" for x by (rule armed_ok_cong) simp_all
  have rn: "rejectPending (debounce_cleanup t) = None" for t :: "('a, 'b) engine"
    by (simp add: debounce_cleanup_def clearPending_def)
  have p: "pending_ok (s\<lparr>abortSignal := x\<rparr>) = pending_ok s" for x by (rule pending_ok_cong) simp_all
  have "wf (callReject abortError (debounce_cleanup t))" if "armed_ok t" for t :: "('a, 'b) engine"
    using wf_debounce_cleanup [OF that] by (simp add: callReject_def rn)
  then show ?thesis
    using w c p by (simp add: signalAbort_def debounce_abortHandler_def Let_def wf_def split: option.splits)
qed

lemma wf_debounce_step: "wf s \<Longrightarrow> wf (debounce_step cfg fn s e)"
  by (cases e) (simp_all add: wf_asyncDebounced wf_debounce_fire debounce_cancel_props(10) wf_debounce_flush wf_debounce_abort)

lemma wf_debounce_init: "wf (debounce_init options)"
  by (simp add: wf_def armed_ok_def pending_ok_def debounce_init_def)

lemma wf_debounce_reachable: "wf (foldl (debounce_step cfg fn) (debounce_init options) es)"
  by (induction es rule: rev_induct) (simp_all add: wf_debounce_init wf_debounce_step)

section \<open>Field lemmas for the helper functions\<close>

lemma callResolve_keeps [simp]:
  "timeoutId (callResolve v s) = timeoutId s"
  "lastExecTime (callResolve v s) = lastExecTime s"
  "lastArgs (callResolve v s) = lastArgs s"
  "lastResult (callResolve v s) = lastResult s"
  "pendingPromise (callResolve v s) = pendingPromise s"
  "resolvePending (callResolve v s) = resolvePending s"
  "rejectPending (callResolve v s) = rejectPending s"
  "abortCleanup (callResolve v s) = abortCleanup s"
  "abortSignal (callResolve v s) = abortSignal s"
  "nextTimer (callResolve v s) = nextTimer s"
  "calls (callResolve v s) = calls s"
  by (simp_all add: callResolve_def split: option.splits)

lemma callResolve_burst [simp]:
  "hasExecutedInCurrentBurst (callResolve v t) = hasExecutedInCurrentBurst t"
  by (simp add: callResolve_def split: option.splits)

lemma callReject_keeps [simp]:
  "timeoutId (callReject e s) = timeoutId s"
  "lastExecTime (callReject e s) = lastExecTime s"
  "lastArgs (callReject e s) = lastArgs s"
  "lastResult (callReject e s) = lastResult s"
  "pendingPromise (callReject e s) = pendingPromise s"
  "resolvePending (callReject e s) = resolvePending s"
  "rejectPending (callReject e s) = rejectPending s"
  "abortCleanup (callReject e s) = abortCleanup s"
  "abortSignal (callReject e s) = abortSignal s"
  "nextTimer (callReject e s) = nextTimer s"
  "calls (callReject e s) = calls s"
  by (simp_all add: callReject_def split: option.splits)

lemma callReject_burst [simp]:
  "hasExecutedInCurrentBurst (callReject e t) = hasExecutedInCurrentBurst t"
  by (simp add: callReject_def split: option.splits)

lemma clearPending_keeps [simp]:
  "timeoutId (clearPending s) = timeoutId s"
  "lastExecTime (clearPending s) = lastExecTime s"
  "lastArgs (clearPending s) = lastArgs s"
  "lastResult (clearPending s) = lastResult s"
  "abortCleanup (clearPending s) = abortCleanup s"
  "abortSignal (clearPending s) = abortSignal s"
  "nextTimer (clearPending s) = nextTimer s"
  "promises (clearPending s) = promises s"
  "calls (clearPending s) = calls s"
  by (simp_all add: clearPending_def)

lemma clearPending_burst [simp]:
  "hasExecutedInCurrentBurst (clearPending t) = hasExecutedInCurrentBurst t"
  by (simp add: clearPending_def)

lemma clearTimer_keeps [simp]:
  "lastExecTime (clearTimer s) = lastExecTime s"
  "lastArgs (clearTimer s) = lastArgs s"
  "lastResult (clearTimer s) = lastResult s"
  "pendingPromise (clearTimer s) = pendingPromise s"
  "resolvePending (clearTimer s) = resolvePending s"
  "rejectPending (clearTimer s) = rejectPending s"
  "abortCleanup (clearTimer s) = abortCleanup s"
  "abortSignal (clearTimer s) = abortSignal s"
  "nextTimer (clearTimer s) = nextTimer s"
  "promises (clearTimer s) = promises s"
  "calls (clearTimer s) = calls s"
  by (simp_all add: clearTimer_def split: option.splits)

lemma clearTimer_burst [simp]:
  "hasExecutedInCurrentBurst (clearTimer t) = hasExecutedInCurrentBurst t"
  by (simp add: clearTimer_def split: option.splits)

lemma newPromise_keeps [simp]:
  "timeoutId (newPromise s) = timeoutId s"
  "lastExecTime (newPromise s) = lastExecTime s"
  "lastArgs (newPromise s) = lastArgs s"
  "lastResult (newPromise s) = lastResult s"
  "abortCleanup (newPromise s) = abortCleanup s"
  "abortSignal (newPromise s) = abortSignal s"
  "nextTimer (newPromise s) = nextTimer s"
  "calls (newPromise s) = calls s"
  by (simp_all add: newPromise_def)

lemma newPromise_burst [simp]:
  "hasExecutedInCurrentBurst (newPromise t) = hasExecutedInCurrentBurst t"
  by (simp add: newPromise_def)

lemma armTimer_keeps [simp]:
  "lastExecTime (armTimer now d s) = lastExecTime s"
  "lastArgs (armTimer now d s) = lastArgs s"
  "lastResult (armTimer now d s) = lastResult s"
  "pendingPromise (armTimer now d s) = pendingPromise s"
  "resolvePending (armTimer now d s) = resolvePending s"
  "rejectPending (armTimer now d s) = rejectPending s"
  "abortCleanup (armTimer now d s) = abortCleanup s"
  "abortSignal (armTimer now d s) = abortSignal s"
  "promises (armTimer now d s) = promises s"
  "calls (armTimer now d s) = calls s"
  by (simp_all add: armTimer_def)

lemma armTimer_burst [simp]:
  "hasExecutedInCurrentBurst (armTimer now d t) = hasExecutedInCurrentBurst t"
  by (simp add: armTimer_def)

lemma runAbortCleanup_keeps [simp]:
  "timeoutId (runAbortCleanup s) = timeoutId s"
  "lastExecTime (runAbortCleanup s) = lastExecTime s"
  "lastArgs (runAbortCleanup s) = lastArgs s"
  "lastResult (runAbortCleanup s) = lastResult s"
  "pendingPromise (runAbortCleanup s) = pendingPromise s"
  "resolvePending (runAbortCleanup s) = resolvePending s"
  "rejectPending (runAbortCleanup s) = rejectPending s"
  "nextTimer (runAbortCleanup s) = nextTimer s"
  "promises (runAbortCleanup s) = promises s"
  "calls (runAbortCleanup s) = calls s"
  by (simp_all add: runAbortCleanup_def)

lemma runAbortCleanup_burst [simp]:
  "hasExecutedInCurrentBurst (runAbortCleanup t) = hasExecutedInCurrentBurst t"
  by (simp add: runAbortCleanup_def)

lemma clearPending_sets [simp]:
  "pendingPromise (clearPending s) = None"
  "resolvePending (clearPending s) = None"
  "rejectPending (clearPending s) = None"
  by (simp_all add: clearPending_def)

lemma clearTimer_timeoutId [simp]: "timeoutId (clearTimer s) = None"
  by (simp add: clearTimer_def split: option.splits)

lemma newPromise_sets [simp]:
  "pendingPromise (newPromise s) = Some (length (promises s))"
  "resolvePending (newPromise s) = Some (length (promises s))"
  "rejectPending (newPromise s) = Some (length (promises s))"
  "promises (newPromise s) = promises s @ [Unsettled]"
  by (simp_all add: newPromise_def)

lemma armTimer_sets [simp]:
  "timeoutId (armTimer now d s) = Some (nextTimer s)"
  "timers (armTimer now d s) = timers s @ [(nextTimer s, due now d)]"
  "nextTimer (armTimer now d s) = Suc (nextTimer s)"
  by (simp_all add: armTimer_def)

lemma sigAborted_keeps [simp]:
  "sigAborted (callResolve v s) = sigAborted s"
  "sigAborted (callReject e s) = sigAborted s"
  "sigAborted (clearPending s) = sigAborted s"
  "sigAborted (clearTimer s) = sigAborted s"
  "sigAborted (newPromise s) = sigAborted s"
  "sigAborted (armTimer now d s) = sigAborted s"
  by (simp_all add: sigAborted_def)

lemma sigAborted_runAbortCleanup [simp]: "sigAborted (runAbortCleanup s) = sigAborted s"
  by (cases "abortSignal s") (simp_all add: sigAborted_def runAbortCleanup_def)

lemma throttle_exec_keeps [simp]:
  "timeoutId (snd (throttle_executeFunction fn a s)) = timeoutId s"
  "lastExecTime (snd (throttle_executeFunction fn a s)) = lastExecTime s"
  "lastArgs (snd (throttle_executeFunction fn a s)) = lastArgs s"
  "pendingPromise (snd (throttle_executeFunction fn a s)) = pendingPromise s"
  "resolvePending (snd (throttle_executeFunction fn a s)) = resolvePending s"
  "rejectPending (snd (throttle_executeFunction fn a s)) = rejectPending s"
  "abortCleanup (snd (throttle_executeFunction fn a s)) = abortCleanup s"
  "abortSignal (snd (throttle_executeFunction fn a s)) = abortSignal s"
  "nextTimer (snd (throttle_executeFunction fn a s)) = nextTimer s"
  "promises (snd (throttle_executeFunction fn a s)) = promises s"
  "hasExecutedInCurrentBurst (snd (throttle_executeFunction fn a s)) = hasExecutedInCurrentBurst s"
  by (simp_all add: throttle_executeFunction_def Let_def split: sum.splits)

lemma throttle_exec_calls:
  "\<not> sigAborted s \<Longrightarrow> calls (snd (throttle_executeFunction fn a s)) = calls s @ [(a, lastExecTime s)]"
  "\<not> sigAborted s \<Longrightarrow> fst (throttle_executeFunction fn a s) = fn a"
  "\<not> sigAborted s \<Longrightarrow> lastResult (snd (throttle_executeFunction fn a s))
      = (case fn a of Inr r \<Rightarrow> Some r | Inl e \<Rightarrow> lastResult s)"
  by (simp_all add: throttle_executeFunction_def Let_def split: sum.splits)

lemma debounce_exec_keeps [simp]:
  "timeoutId (snd (debounce_executeFunction fn a s)) = timeoutId s"
  "lastExecTime (snd (debounce_executeFunction fn a s)) = lastExecTime s"
  "lastArgs (snd (debounce_executeFunction fn a s)) = lastArgs s"
  "pendingPromise (snd (debounce_executeFunction fn a s)) = pendingPromise s"
  "resolvePending (snd (debounce_executeFunction fn a s)) = resolvePending s"
  "rejectPending (snd (debounce_executeFunction fn a s)) = rejectPending s"
  "abortCleanup (snd (debounce_executeFunction fn a s)) = abortCleanup s"
  "abortSignal (snd (debounce_executeFunction fn a s)) = abortSignal s"
  "nextTimer (snd (debounce_executeFunction fn a s)) = nextTimer s"
  "promises (snd (debounce_executeFunction fn a s)) = promises s"
  by (simp_all add: debounce_executeFunction_def Let_def split: sum.splits)

lemma debounce_exec_calls [simp]:
  "calls (snd (debounce_executeFunction fn a s)) = calls s @ [(a, lastExecTime s)]"
  "fst (debounce_executeFunction fn a s) = fn a"
  "lastResult (snd (debounce_executeFunction fn a s))
      = (case fn a of Inr r \<Rightarrow> Some r | Inl e \<Rightarrow> lastResult s)"
  by (simp_all add: debounce_executeFunction_def Let_def split: sum.splits)

lemma sigAborted_update [simp]:
  "sigAborted (s\<lparr>lastExecTime := x1\<rparr>) = sigAborted s"
  "sigAborted (s\<lparr>lastArgs := x2\<rparr>) = sigAborted s"
  "sigAborted (s\<lparr>calls := x3\<rparr>) = sigAborted s"
  "sigAborted (s\<lparr>lastResult := x4\<rparr>) = sigAborted s"
  "sigAborted (s\<lparr>timers := x5\<rparr>) = sigAborted s"
  by (simp_all add: sigAborted_def)

lemma sigAborted_burst_update [simp]:
  "sigAborted (t\<lparr>hasExecutedInCurrentBurst := b\<rparr>) = sigAborted t"
  by (simp add: sigAborted_def)

section \<open>Cancellation\<close>

lemma throttle_pending_ex_value:
  "throttle_pending_ex =
    \<lparr>timeoutId = Some 1, lastExecTime = 1000, lastArgs = Some ''b'', lastResult = Some ''result:a'',
     pendingPromise = Some 0, resolvePending = Some 0, rejectPending = Some 0, abortCleanup = True,
     abortSignal = None, timers = [(1, 1150)], nextTimer = 2, promises = [Unsettled],
     calls = [(''a'', 1000)], hasExecutedInCurrentBurst = True\<rparr>"
  by (simp add: throttle_pending_ex_def asyncThrottled_def throttle_executeFunction_def throttle_delay_def
        throttle_config_def throttle_init_def noOptions_def fn_ok_def Let_def engine_defs)

lemma debounce_pending_ex_value:
  "debounce_pending_ex =
    \<lparr>timeoutId = Some 1, lastExecTime = 0, lastArgs = Some ''a'', lastResult = None,
     pendingPromise = Some 0, resolvePending = Some 0, rejectPending = Some 0, abortCleanup = True,
     abortSignal = None, timers = [(1, 1100)], nextTimer = 2, promises = [Unsettled],
     calls = []\<rparr>"
  by (simp add: debounce_pending_ex_def asyncDebounced_def debounce_executeFunction_def debounce_delay_def
        debounce_config_def debounce_init_def noOptions_def fn_ok_def Let_def engine_defs)

lemma throttle_flush_calls:
  "lastArgs s = Some a \<Longrightarrow> \<not> sigAborted s \<Longrightarrow>
   calls (snd (throttle_flush fn s)) = calls s @ [(a, lastExecTime s)]"
  "lastArgs s = None \<or> sigAborted s \<Longrightarrow> calls (snd (throttle_flush fn s)) = calls s"
  by (auto simp: throttle_flush_def Let_def split: option.splits sum.splits)

lemma debounce_flush_no_args:
  "lastArgs s = None \<Longrightarrow> debounce_flush fn s = (Fulfilled (lastResult s), s)"
  by (simp add: debounce_flush_def)

lemma throttle_cancel_keeps:
  "sigAborted (throttle_cancel s) = sigAborted s"
  "lastExecTime (throttle_cancel s) = lastExecTime s"
  by (simp_all add: throttle_cancel_def)

text \<open>
  C7 (as stated): \<open>cancel()\<close> cancels the armed timer, rejects the outstanding
  \<open>pendingPromise\<close> with a cancellation error named \<open>AbortError\<close> and clears transient
  state, \<open>lastArgs\<close> being kept by throttle and cleared by debounce; afterwards
  \<open>isPending()\<close> is false and no wrapped-operation call occurs unless a new invocation
  arrives. The last part fails on throttle, which keeps \<open>lastArgs\<close> so that \<open>flush()\<close> can
  still run them: a throttle wrapper is invoked once (leading-edge call), cancelled and
  flushed, and \<open>flush()\<close> calls the wrapped operation a second time with no invocation
  in between.
\<close>

theorem cancel_throttle_then_flush_calls:
  "calls (snd (asyncThrottled (throttle_config 100 noOptions) fn_ok 1000 ''arg1'' (throttle_init noOptions)))
     = [(''arg1'', 1000)]
   \<and> timers (throttle_cancel
        (snd (asyncThrottled (throttle_config 100 noOptions) fn_ok 1000 ''arg1'' (throttle_init noOptions)))) = []
   \<and> throttle_flush fn_ok (throttle_cancel
        (snd (asyncThrottled (throttle_config 100 noOptions) fn_ok 1000 ''arg1'' (throttle_init noOptions))))
     = (Fulfilled (Some ''result:arg1''),
        \<lparr>timeoutId = None, lastExecTime = 1000, lastArgs = None, lastResult = Some ''result:arg1'',
         pendingPromise = None, resolvePending = None, rejectPending = None,
         abortCleanup = False, abortSignal = None, timers = [], nextTimer = 1, promises = [],
         calls = [(''arg1'', 1000), (''arg1'', 1000)], hasExecutedInCurrentBurst = True\<rparr>)"
  by (simp add: throttle_defs scenario_defs engine_defs Let_def)

text \<open>
  C7 (amended): for every high- or medium-precision wrapper, \<open>cancel()\<close> cancels the
  armed timer, rejects the outstanding \<open>pendingPromise\<close> (if any) with a cancellation
  error whose name is \<open>AbortError\<close>, and clears the promise slot; \<open>lastArgs\<close> is kept by
  throttle and cleared by debounce; afterwards \<open>isPending()\<close> is false, no timer is
  left, and neither the passing of time nor an abort of the signal makes a
  wrapped-operation call. A \<open>flush()\<close> after \<open>cancel()\<close> calls nothing on debounce; on
  throttle it runs the kept \<open>lastArgs\<close>, if there are any and the signal has not
  aborted. The state is any state satisfying the invariants, which every reachable
  state does (\<open>wf_throttle_reachable\<close>, \<open>wf_debounce_reachable\<close>).
\<close>

theorem cancel_rejects_and_clears:
  fixes st :: "('a, 'r) throttle_engine" and sd :: "('a, 'r) engine"
  assumes "wf st" and "wf sd"
  shows "timers (throttle_cancel st) = [] \<and> timeoutId (throttle_cancel st) = None
       \<and> (\<forall>p. pendingPromise st = Some p \<longrightarrow> promises (throttle_cancel st) ! p = Rejected cancelError)
       \<and> pendingPromise (throttle_cancel st) = None
       \<and> resolvePending (throttle_cancel st) = None \<and> rejectPending (throttle_cancel st) = None
       \<and> lastArgs (throttle_cancel st) = lastArgs st
       \<and> \<not> isPending (throttle_cancel st)
       \<and> (\<forall>t. calls (advance (throttle_timerCallback fn) t (throttle_cancel st)) = calls st)
       \<and> calls (signalAbort throttle_abortHandler (throttle_cancel st)) = calls st
       \<and> (\<forall>a. lastArgs st = Some a \<and> \<not> sigAborted st \<longrightarrow>
             calls (snd (throttle_flush fn (throttle_cancel st))) = calls st @ [(a, lastExecTime st)])
       \<and> (lastArgs st = None \<or> sigAborted st \<longrightarrow>
             calls (snd (throttle_flush fn (throttle_cancel st))) = calls st)
       \<and> timers (debounce_cancel sd) = [] \<and> timeoutId (debounce_cancel sd) = None
       \<and> (\<forall>p. pendingPromise sd = Some p \<longrightarrow> promises (debounce_cancel sd) ! p = Rejected cancelError)
       \<and> pendingPromise (debounce_cancel sd) = None
       \<and> resolvePending (debounce_cancel sd) = None \<and> rejectPending (debounce_cancel sd) = None
       \<and> lastArgs (debounce_cancel sd) = None
       \<and> \<not> isPending (debounce_cancel sd)
       \<and> (\<forall>t. calls (advance (debounce_timerCallback fn) t (debounce_cancel sd)) = calls sd)
       \<and> calls (signalAbort debounce_abortHandler (debounce_cancel sd)) = calls sd
       \<and> calls (snd (debounce_flush fn (debounce_cancel sd))) = calls sd
       \<and> name cancelError = ''AbortError''"
proof -
  note t = throttle_cancel_props [OF assms(1)]
  note d = debounce_cancel_props [OF assms(2)]
  have "calls (advance (throttle_timerCallback fn) t (throttle_cancel st)) = calls st" for t
    using t(1) t(9) by (simp add: advance_idle)
  moreover have "calls (advance (debounce_timerCallback fn) t (debounce_cancel sd)) = calls sd" for t
    using d(1) d(9) by (simp add: advance_idle)
  moreover have "pendingPromise (throttle_cancel st) = None" "pendingPromise (debounce_cancel sd) = None"
    using t(4) d(4) by (simp_all add: isPending_def)
  moreover have "calls (snd (throttle_flush fn (throttle_cancel st))) = calls st @ [(a, lastExecTime st)]"
    if "lastArgs st = Some a" "\<not> sigAborted st" for a
    using throttle_flush_calls(1) [of "throttle_cancel st" a fn] that t(7,9)
    by (simp add: throttle_cancel_keeps)
  moreover have "calls (snd (throttle_flush fn (throttle_cancel st))) = calls st"
    if "lastArgs st = None \<or> sigAborted st"
    using throttle_flush_calls(2) [of "throttle_cancel st" fn] that t(7,9)
    by (simp add: throttle_cancel_keeps)
  moreover have "calls (snd (debounce_flush fn (debounce_cancel sd))) = calls sd"
    using d(7,9) by (simp add: debounce_flush_no_args)
  moreover have "calls (signalAbort throttle_abortHandler (throttle_cancel st)) = calls st"
    using t(9)
    by (simp add: signalAbort_def throttle_abortHandler_def throttle_cleanup_def Let_def
          split: option.splits)
  moreover have "calls (signalAbort debounce_abortHandler (debounce_cancel sd)) = calls sd"
    using d(9)
    by (simp add: signalAbort_def debounce_abortHandler_def debounce_cleanup_def Let_def
          split: option.splits)
  ultimately show ?thesis
    using t d by (simp add: cancelError_def)
qed

theorem cancel_rejects_and_clears_witness:
  "wf throttle_pending_ex \<and> wf debounce_pending_ex
   \<and> pendingPromise throttle_pending_ex = Some 0 \<and> isPending throttle_pending_ex
   \<and> timers throttle_pending_ex = [(1, 1150)]
   \<and> promises (throttle_cancel throttle_pending_ex) ! 0 = Rejected cancelError
   \<and> timers (throttle_cancel throttle_pending_ex) = []
   \<and> lastArgs (throttle_cancel throttle_pending_ex) = Some ''b''
   \<and> \<not> isPending (throttle_cancel throttle_pending_ex)
   \<and> calls (advance (throttle_timerCallback fn_ok) 5000 (throttle_cancel throttle_pending_ex)) = [(''a'', 1000)]
   \<and> \<not> sigAborted throttle_pending_ex
   \<and> calls (snd (throttle_flush fn_ok (throttle_cancel throttle_pending_ex)))
        = [(''a'', 1000), (''b'', 1000)]
   \<and> pendingPromise debounce_pending_ex = Some 0 \<and> isPending debounce_pending_ex
   \<and> timers debounce_pending_ex = [(1, 1100)]
   \<and> promises (debounce_cancel debounce_pending_ex) ! 0 = Rejected cancelError
   \<and> timers (debounce_cancel debounce_pending_ex) = []
   \<and> lastArgs (debounce_cancel debounce_pending_ex) = None
   \<and> \<not> isPending (debounce_cancel debounce_pending_ex)
   \<and> calls (advance (debounce_timerCallback fn_ok) 5000 (debounce_cancel debounce_pending_ex)) = []
   \<and> calls (snd (debounce_flush fn_ok (debounce_cancel debounce_pending_ex))) = []"
proof -
  have w: "wf throttle_pending_ex" "wf debounce_pending_ex"
    by (simp_all add: throttle_pending_ex_value debounce_pending_ex_value wf_def armed_ok_def pending_ok_def)
  have v: "pendingPromise throttle_pending_ex = Some 0" "timers throttle_pending_ex = [(1, 1150)]"
    "lastArgs throttle_pending_ex = Some ''b''" "calls throttle_pending_ex = [(''a'', 1000)]"
    "pendingPromise debounce_pending_ex = Some 0" "timers debounce_pending_ex = [(1, 1100)]"
    "calls debounce_pending_ex = []" "\<not> sigAborted throttle_pending_ex"
    "lastExecTime throttle_pending_ex = 1000"
    by (simp_all add: throttle_pending_ex_value debounce_pending_ex_value sigAborted_def)
  show ?thesis
    using cancel_rejects_and_clears [OF w, of fn_ok] w v
    by (simp add: isPending_def)
qed

section \<open>Leading-edge execution\<close>

lemma fst_exec_pair:
  "fst (case x of (Inr r, s5) \<Rightarrow> (f r, h r s5) | (Inl e, s5) \<Rightarrow> (g e, k e s5))
     = (case fst x of Inr r \<Rightarrow> f r | Inl e \<Rightarrow> g e)"
  by (cases x; cases "fst x") auto

lemma snd_exec_pair:
  "snd (case x of (Inr r, s5) \<Rightarrow> (f r, h r s5) | (Inl e, s5) \<Rightarrow> (g e, k e s5))
     = (case fst x of Inr r \<Rightarrow> h r (snd x) | Inl e \<Rightarrow> k e (snd x))"
  by (cases x; cases "fst x") auto

lemma throttle_leading_exec:
  assumes "\<not> sigAborted s" "leading cfg" "lastExecTime s = 0 \<or> now - lastExecTime s \<ge> wait cfg"
  shows "lastExecTime (snd (asyncThrottled cfg fn now a s)) = now"
    "calls (snd (asyncThrottled cfg fn now a s)) = calls s @ [(a, now)]"
    "fst (asyncThrottled cfg fn now a s) = (case fn a of Inr r \<Rightarrow> Fulfilled (Some r) | Inl e \<Rightarrow> Failed e)"
    "sigAborted (snd (asyncThrottled cfg fn now a s)) = sigAborted s"
proof -
  let ?s3 = "if pendingPromise (clearTimer (s\<lparr>lastExecTime := now, hasExecutedInCurrentBurst := True\<rparr>)) \<noteq> None
          then clearPending (clearTimer (s\<lparr>lastExecTime := now, hasExecutedInCurrentBurst := True\<rparr>))
          else clearTimer (s\<lparr>lastExecTime := now, hasExecutedInCurrentBurst := True\<rparr>)"
  let ?s4 = "?s3\<lparr>lastArgs := (if trailing cfg then Some a else None)\<rparr>"
  have eq: "asyncThrottled cfg fn now a s =
      (case throttle_executeFunction fn a ?s4 of
         (Inr r, s5) \<Rightarrow> (Fulfilled (Some r), s5)
       | (Inl e, s5) \<Rightarrow> (Failed e, s5))"
    using assms unfolding asyncThrottled_def Let_def by (simp only: if_True if_False simp_thms)
  have na: "\<not> sigAborted ?s4" using assms(1) by simp
  have f: "lastExecTime ?s4 = now" "calls ?s4 = calls s" by simp_all
  have sn: "snd (asyncThrottled cfg fn now a s) = snd (throttle_executeFunction fn a ?s4)"
    unfolding eq snd_exec_pair by (simp split: sum.splits)
  show "lastExecTime (snd (asyncThrottled cfg fn now a s)) = now"
    unfolding sn using f by simp
  show "calls (snd (asyncThrottled cfg fn now a s)) = calls s @ [(a, now)]"
    unfolding sn using f throttle_exec_calls(1) [OF na] by simp
  show "fst (asyncThrottled cfg fn now a s) = (case fn a of Inr r \<Rightarrow> Fulfilled (Some r) | Inl e \<Rightarrow> Failed e)"
    unfolding eq fst_exec_pair using throttle_exec_calls(2) [OF na] by simp
  show "sigAborted (snd (asyncThrottled cfg fn now a s)) = sigAborted s"
    unfolding sn using na assms(1) by (simp add: sigAborted_def)
qed

lemma debounce_leading_exec:
  assumes "\<not> sigAborted s" "leading cfg" "lastExecTime s = 0 \<or> now - lastExecTime s \<ge> wait cfg"
  shows "lastExecTime (snd (asyncDebounced cfg fn now a s)) = now"
    "calls (snd (asyncDebounced cfg fn now a s)) = calls s @ [(a, now)]"
    "fst (asyncDebounced cfg fn now a s) = (case fn a of Inr r \<Rightarrow> Fulfilled (Some r) | Inl e \<Rightarrow> Failed e)"
    "sigAborted (snd (asyncDebounced cfg fn now a s)) = sigAborted s"
proof -
  let ?s2 = "(clearTimer s)\<lparr>lastArgs := Some a\<rparr>"
  let ?s3 = "if pendingPromise ?s2 = None then newPromise ?s2 else ?s2"
  let ?s4 = "?s3\<lparr>lastExecTime := now\<rparr>"
  have l3: "lastExecTime ?s3 = lastExecTime s" by simp
  have eq: "asyncDebounced cfg fn now a s =
      (case debounce_executeFunction fn a ?s4 of
         (Inr r, s5) \<Rightarrow> (Fulfilled (Some r), clearPending (callResolve (Some r) s5))
       | (Inl e, s5) \<Rightarrow> (Failed e, clearPending (callReject e s5)))"
    using assms l3 unfolding asyncDebounced_def Let_def by (simp only: if_True if_False simp_thms)
  have f: "lastExecTime ?s4 = now" "calls ?s4 = calls s" "sigAborted ?s4 = sigAborted s" by simp_all
  show "lastExecTime (snd (asyncDebounced cfg fn now a s)) = now"
    unfolding eq snd_exec_pair using f(1) by (simp split: sum.splits)
  show "calls (snd (asyncDebounced cfg fn now a s)) = calls s @ [(a, now)]"
    unfolding eq snd_exec_pair using f(1,2) by (simp split: sum.splits)
  show "fst (asyncDebounced cfg fn now a s) = (case fn a of Inr r \<Rightarrow> Fulfilled (Some r) | Inl e \<Rightarrow> Failed e)"
    unfolding eq fst_exec_pair by simp
  show "sigAborted (snd (asyncDebounced cfg fn now a s)) = sigAborted s"
    unfolding eq snd_exec_pair using f(3) by (simp add: sigAborted_def split: sum.splits)
qed

lemma throttle_inside_window:
  assumes "lastExecTime s \<noteq> 0" "now - lastExecTime s < wait cfg"
  shows "calls (snd (asyncThrottled cfg fn now a s)) = calls s"
  using assms by (simp add: snd_asyncThrottled)

lemma debounce_inside_window:
  assumes "lastExecTime s \<noteq> 0" "now - lastExecTime s < wait cfg"
  shows "calls (snd (asyncDebounced cfg fn now a s)) = calls s"
proof -
  let ?s2 = "(clearTimer s)\<lparr>lastArgs := Some a\<rparr>"
  let ?s3 = "if pendingPromise ?s2 = None then newPromise ?s2 else ?s2"
  have l3: "lastExecTime ?s3 = lastExecTime s" "calls ?s3 = calls s" by simp_all
  have "snd (asyncDebounced cfg fn now a s) =
      (if sigAborted s then s
       else if trailing cfg then armTimer now (debounce_delay cfg (now - lastExecTime s)) ?s3 else ?s3)"
    using assms l3(1) unfolding asyncDebounced_def Let_def by (simp only: if_distrib [of snd] snd_conv) simp
  then show ?thesis using l3(2) by simp
qed

text \<open>
  C9: in every high- or medium-precision throttle or debounce wrapper, a leading-edge
  execution stamps \<open>lastExecTime = now\<close> before the wrapped operation is invoked: the
  call is logged with the stamp \<open>now\<close> already in place, and whatever the operation
  does (fulfil, throw or reject) \<open>lastExecTime\<close> is \<open>now\<close> afterwards and the caller gets
  the operation's own outcome. The next invocation, at any reading \<open>later\<close>, decides
  from that stamp: it takes the leading edge again exactly when \<open>now = 0\<close> or
  \<open>later - now \<ge> wait\<close>, and otherwise makes no call. (The stamp 0 is also the value
  of a wrapper that never executed, so after an execution at reading 0 the next
  invocation executes again even inside the window.)
\<close>

theorem leading_edge_stamps_before_call:
  fixes st :: "('a, 'r) throttle_engine" and sd :: "('a, 'r) engine"
  assumes "\<not> sigAborted st" and "leading ct"
    and "lastExecTime st = 0 \<or> now - lastExecTime st \<ge> wait ct"
    and "\<not> sigAborted sd" and "leading cd"
    and "lastExecTime sd = 0 \<or> now - lastExecTime sd \<ge> wait cd"
  shows "calls (snd (asyncThrottled ct fn now a st)) = calls st @ [(a, now)]
       \<and> lastExecTime (snd (asyncThrottled ct fn now a st)) = now
       \<and> fst (asyncThrottled ct fn now a st) = (case fn a of Inr r \<Rightarrow> Fulfilled (Some r) | Inl e \<Rightarrow> Failed e)
       \<and> calls (snd (asyncThrottled ct fn later b (snd (asyncThrottled ct fn now a st))))
            = calls st @ [(a, now)]
                @ (if now = 0 \<or> later - now \<ge> wait ct then [(b, later)] else [])
       \<and> calls (snd (asyncDebounced cd fn now a sd)) = calls sd @ [(a, now)]
       \<and> lastExecTime (snd (asyncDebounced cd fn now a sd)) = now
       \<and> fst (asyncDebounced cd fn now a sd) = (case fn a of Inr r \<Rightarrow> Fulfilled (Some r) | Inl e \<Rightarrow> Failed e)
       \<and> calls (snd (asyncDebounced cd fn later b (snd (asyncDebounced cd fn now a sd))))
            = calls sd @ [(a, now)]
                @ (if now = 0 \<or> later - now \<ge> wait cd then [(b, later)] else [])"
proof -
  note t = throttle_leading_exec [OF assms(1-3), of fn a]
  note d = debounce_leading_exec [OF assms(4-6), of fn a]
  let ?t1 = "snd (asyncThrottled ct fn now a st)"
  let ?d1 = "snd (asyncDebounced cd fn now a sd)"
  have nt: "\<not> sigAborted ?t1" using t(4) assms(1) by simp
  have nd: "\<not> sigAborted ?d1" using d(4) assms(4) by simp
  have "calls (snd (asyncThrottled ct fn later b ?t1))
          = calls st @ [(a, now)] @ (if now = 0 \<or> later - now \<ge> wait ct then [(b, later)] else [])"
  proof (cases "now = 0 \<or> later - now \<ge> wait ct")
    case True
    then have "lastExecTime ?t1 = 0 \<or> later - lastExecTime ?t1 \<ge> wait ct" using t(1) by simp
    from throttle_leading_exec(2) [OF nt assms(2) this, of fn b] t(2) True show ?thesis by simp
  next
    case False
    then have "lastExecTime ?t1 \<noteq> 0" "later - lastExecTime ?t1 < wait ct" using t(1) by simp_all
    from throttle_inside_window [OF this, of fn b] t(2) False show ?thesis by simp
  qed
  moreover have "calls (snd (asyncDebounced cd fn later b ?d1))
          = calls sd @ [(a, now)] @ (if now = 0 \<or> later - now \<ge> wait cd then [(b, later)] else [])"
  proof (cases "now = 0 \<or> later - now \<ge> wait cd")
    case True
    then have "lastExecTime ?d1 = 0 \<or> later - lastExecTime ?d1 \<ge> wait cd" using d(1) by simp
    from debounce_leading_exec(2) [OF nd assms(5) this, of fn b] d(2) True show ?thesis by simp
  next
    case False
    then have "lastExecTime ?d1 \<noteq> 0" "later - lastExecTime ?d1 < wait cd" using d(1) by simp_all
    from debounce_inside_window [OF this, of fn b] d(2) False show ?thesis by simp
  qed
  ultimately show ?thesis using t d by simp
qed

theorem leading_edge_stamps_before_call_witness:
  "\<not> sigAborted (throttle_init noOptions :: (string, string) throttle_engine)
   \<and> leading (throttle_config 100 noOptions)
   \<and> lastExecTime (throttle_init noOptions :: (string, string) throttle_engine) = 0
   \<and> \<not> sigAborted (debounce_init noOptions :: (string, string) engine)
   \<and> leading leading_debounce_config
   \<and> lastExecTime (debounce_init noOptions :: (string, string) engine) = 0
   \<and> fn_fail ''a'' = Inl (Thrown ''boom'')
   \<and> calls (snd (asyncThrottled (throttle_config 100 noOptions) fn_fail 1000 ''a'' (throttle_init noOptions)))
        = [(''a'', 1000)]
   \<and> lastExecTime (snd (asyncThrottled (throttle_config 100 noOptions) fn_fail 1000 ''a'' (throttle_init noOptions)))
        = 1000
   \<and> fst (asyncThrottled (throttle_config 100 noOptions) fn_fail 1000 ''a'' (throttle_init noOptions))
        = Failed (Thrown ''boom'')
   \<and> calls (snd (asyncThrottled (throttle_config 100 noOptions) fn_fail 1050 ''b''
        (snd (asyncThrottled (throttle_config 100 noOptions) fn_fail 1000 ''a'' (throttle_init noOptions)))))
        = [(''a'', 1000)]
   \<and> calls (snd (asyncDebounced leading_debounce_config fn_fail 1000 ''a'' (debounce_init noOptions)))
        = [(''a'', 1000)]
   \<and> lastExecTime (snd (asyncDebounced leading_debounce_config fn_fail 1000 ''a'' (debounce_init noOptions)))
        = 1000
   \<and> fst (asyncDebounced leading_debounce_config fn_fail 1000 ''a'' (debounce_init noOptions))
        = Failed (Thrown ''boom'')
   \<and> calls (snd (asyncDebounced leading_debounce_config fn_fail 1050 ''b''
        (snd (asyncDebounced leading_debounce_config fn_fail 1000 ''a'' (debounce_init noOptions)))))
        = [(''a'', 1000)]
   \<and> calls (snd (asyncThrottled (throttle_config 100 noOptions) fn_fail 50 ''b''
        (snd (asyncThrottled (throttle_config 100 noOptions) fn_fail 0 ''a'' (throttle_init noOptions)))))
        = [(''a'', 0), (''b'', 50)]
   \<and> calls (snd (asyncDebounced leading_debounce_config fn_fail 50 ''b''
        (snd (asyncDebounced leading_debounce_config fn_fail 0 ''a'' (debounce_init noOptions)))))
        = [(''a'', 0), (''b'', 50)]"
proof -
  have h: "\<not> sigAborted (throttle_init noOptions :: (string, string) throttle_engine)"
    "leading (throttle_config 100 noOptions)"
    "lastExecTime (throttle_init noOptions :: (string, string) throttle_engine) = 0
       \<or> now - lastExecTime (throttle_init noOptions :: (string, string) throttle_engine)
            \<ge> wait (throttle_config 100 noOptions)"
    "\<not> sigAborted (debounce_init noOptions :: (string, string) engine)"
    "leading leading_debounce_config"
    "lastExecTime (debounce_init noOptions :: (string, string) engine) = 0
       \<or> now - lastExecTime (debounce_init noOptions :: (string, string) engine)
            \<ge> wait leading_debounce_config" for now
    by (simp_all add: sigAborted_def throttle_init_def debounce_init_def throttle_config_def
          debounce_config_def leading_debounce_config_def noOptions_def)
  have v: "calls (throttle_init noOptions :: (string, string) throttle_engine) = []"
    "calls (debounce_init noOptions :: (string, string) engine) = []"
    "lastExecTime (throttle_init noOptions :: (string, string) throttle_engine) = 0"
    "lastExecTime (debounce_init noOptions :: (string, string) engine) = 0"
    "wait (throttle_config 100 noOptions) = 100" "wait leading_debounce_config = 100"
    by (simp_all add: throttle_init_def debounce_init_def throttle_config_def
          debounce_config_def leading_debounce_config_def)
  show ?thesis
    using leading_edge_stamps_before_call [OF h, where now = 1000 and fn = fn_fail and a = "''a''"
        and later = 1050 and b = "''b''"]
      leading_edge_stamps_before_call [OF h, where now = 0 and fn = fn_fail and a = "''a''"
        and later = 50 and b = "''b''"]
      h(1,2,4,5) v
    by (simp add: fn_fail_def)
qed

section \<open>The suppression law of debounce\<close>













text \<open>
  The code counts \<open>maxWait\<close> from \<open>lastExecTime\<close>, which is 0 in a wrapper that never
  executed, not from the first invocation of the burst. A burst well inside \<open>maxWait\<close>
  makes one call when the clock is near 0 and two when it is not: at reading 5000 the
  delay \<open>min(100, 300 - 5000)\<close> is negative and the first invocation is executed at
  once. The test \<open>should handle maxWait constraint correctly\<close> expects no such
  execution without \<open>leading\<close>. The amended claim below neither promises nor denies
  this behaviour.
\<close>

lemma debounce_maxWait_counts_from_lastExecTime:
  "burst_ok (wait maxWait_debounce_config) realistic_burst
   \<and> calls (debounce_run maxWait_debounce_config fn_ok (debounce_init noOptions) realistic_burst)
        = [(''a'', 5000), (''b'', 5150)]
   \<and> burst_ok (wait maxWait_debounce_config) early_burst
   \<and> calls (debounce_run maxWait_debounce_config fn_ok (debounce_init noOptions) early_burst)
        = [(''b'', 160)]"
  by (simp add: maxWait_debounce_config_def realistic_burst_def early_burst_def debounce_config_def
        debounce_init_def
        noOptions_def debounce_run_def advance_def drainTimers_def fireTimer_def
        asyncDebounced_def debounce_timerCallback_def debounce_executeFunction_def debounce_delay_def
        fn_ok_def Let_def engine_defs)



section \<open>Abort, flush, edge options, defaults and construction\<close>

text \<open>
  C1: when the abort signal fires while a \<open>pendingPromise\<close> is outstanding, every caller
  awaiting it is to be rejected with an abort error, the timer cleared and the listener
  removed. The code clears the timer and removes the listener but rejects nobody. In
  debounce the handler calls \<open>cleanup()\<close>, which sets \<open>rejectPending\<close> to null, before it
  tests \<open>rejectPending\<close>; in throttle the handler only drops its reference. Evaluated on
  a debounce and on a throttle wrapper (\<open>wait = 100\<close>, trailing edge): the invocation at
  1000 returns the shared promise 0, and after the abort that promise is still
  unsettled while nothing is left that could settle it.
\<close>

theorem abort_leaves_pending_callers_unsettled:
  "asyncDebounced (debounce_config 100 signalOptions) fn_ok 1000 ''a'' (debounce_init signalOptions)
     = (Adopts 0,
        \<lparr>timeoutId = Some 1, lastExecTime = 0, lastArgs = Some ''a'', lastResult = None,
         pendingPromise = Some 0, resolvePending = Some 0, rejectPending = Some 0,
         abortCleanup = True, abortSignal = Some (AbortSignal False True),
         timers = [(1, 1100)], nextTimer = 2, promises = [Unsettled], calls = []\<rparr>)
   \<and> signalAbort debounce_abortHandler
        (snd (asyncDebounced (debounce_config 100 signalOptions) fn_ok 1000 ''a'' (debounce_init signalOptions)))
     = \<lparr>timeoutId = None, lastExecTime = 0, lastArgs = None, lastResult = None,
        pendingPromise = None, resolvePending = None, rejectPending = None,
        abortCleanup = False, abortSignal = Some (AbortSignal True False),
        timers = [], nextTimer = 2, promises = [Unsettled], calls = []\<rparr>
   \<and> fst (asyncThrottled (throttle_config 100 trailingOnly) fn_ok 1000 ''a'' (throttle_init trailingOnly))
     = Adopts 0
   \<and> signalAbort throttle_abortHandler
        (snd (asyncThrottled (throttle_config 100 trailingOnly) fn_ok 1000 ''a'' (throttle_init trailingOnly)))
     = \<lparr>timeoutId = None, lastExecTime = 0, lastArgs = None, lastResult = None,
        pendingPromise = None, resolvePending = None, rejectPending = None,
        abortCleanup = False, abortSignal = Some (AbortSignal True False),
        timers = [], nextTimer = 2, promises = [Unsettled], calls = [],
        hasExecutedInCurrentBurst = False\<rparr>"
  by (simp add: scenario_defs debounce_defs throttle_defs host_defs engine_defs Let_def)

text \<open>In any state at all, the abort event settles no promise.\<close>

lemma abort_settles_nothing:
  "promises (signalAbort debounce_abortHandler s) = promises s"
  "promises (signalAbort throttle_abortHandler t) = promises t"
  by (simp_all add: signalAbort_def debounce_abortHandler_def debounce_cleanup_def
        throttle_abortHandler_def throttle_cleanup_def callReject_def Let_def split: option.splits)

text \<open>
  C2: \<open>flush()\<close> is to invoke the wrapped operation with \<open>lastArgs\<close> (when present and
  not aborted), update \<open>lastResult\<close>, resolve the outstanding \<open>pendingPromise\<close> with the
  result and return it; otherwise return \<open>lastResult\<close> and resolve the pending promise
  with it; and \<open>isPending()\<close> is false afterwards. Throttle does all of this
  (\<open>throttle_flush_executes\<close>, \<open>throttle_flush_idle\<close> below). Debounce does not: its
  \<open>flush\<close> runs \<open>cleanup()\<close> first, which drops the continuations, so the promise 0
  handed to the earlier caller is never settled; and on the other branch it leaves the
  pending promise in place, so \<open>isPending()\<close> stays true (second scenario: the listener
  was removed by an earlier \<open>cancel()\<close>, then an invocation, then the signal aborts).
\<close>

theorem debounce_flush_drops_pending_promise:
  "fst (asyncDebounced (debounce_config 100 noOptions) fn_ok 1000 ''a'' (debounce_init noOptions)) = Adopts 0
   \<and> debounce_flush fn_ok
        (snd (asyncDebounced (debounce_config 100 noOptions) fn_ok 1000 ''a'' (debounce_init noOptions)))
     = (Fulfilled (Some ''result:a''),
        \<lparr>timeoutId = None, lastExecTime = 0, lastArgs = None, lastResult = Some ''result:a'',
         pendingPromise = None, resolvePending = None, rejectPending = None,
         abortCleanup = False, abortSignal = None,
         timers = [], nextTimer = 2, promises = [Unsettled], calls = [(''a'', 0)]\<rparr>)
   \<and> fst (asyncDebounced (debounce_config 100 signalOptions) fn_ok 1000 ''a''
        (debounce_cancel (debounce_init signalOptions))) = Adopts 0
   \<and> debounce_flush fn_ok (signalAbort debounce_abortHandler
        (snd (asyncDebounced (debounce_config 100 signalOptions) fn_ok 1000 ''a''
          (debounce_cancel (debounce_init signalOptions)))))
     = (Fulfilled None,
        \<lparr>timeoutId = Some 1, lastExecTime = 0, lastArgs = Some ''a'', lastResult = None,
         pendingPromise = Some 0, resolvePending = Some 0, rejectPending = Some 0,
         abortCleanup = False, abortSignal = Some (AbortSignal True False),
         timers = [(1, 1100)], nextTimer = 2, promises = [Unsettled], calls = []\<rparr>)
   \<and> isPending (snd (debounce_flush fn_ok (signalAbort debounce_abortHandler
        (snd (asyncDebounced (debounce_config 100 signalOptions) fn_ok 1000 ''a''
          (debounce_cancel (debounce_init signalOptions)))))))"
  by (simp add: scenario_defs debounce_defs host_defs engine_defs Let_def)

text \<open>
  C6: with \<open>leading\<close> and \<open>trailing\<close> both false every invocation is to return a promise
  resolved with the previous \<open>lastResult\<close>. Throttle does (\<open>throttle_neither_edge\<close>
  below; here \<open>lastResult\<close> is still undefined). Debounce allocates \<open>pendingPromise\<close>,
  arms no timer and returns that promise: nothing will ever settle it.
\<close>

theorem debounce_neither_edge_never_settles:
  "asyncDebounced (debounce_config 100 neitherEdge) fn_ok 1000 ''a'' (debounce_init neitherEdge)
     = (Adopts 0,
        \<lparr>timeoutId = None, lastExecTime = 0, lastArgs = Some ''a'', lastResult = None,
         pendingPromise = Some 0, resolvePending = Some 0, rejectPending = Some 0,
         abortCleanup = True, abortSignal = None,
         timers = [], nextTimer = 1, promises = [Unsettled], calls = []\<rparr>)
   \<and> drainTimers (debounce_timerCallback fn_ok)
        (snd (asyncDebounced (debounce_config 100 neitherEdge) fn_ok 1000 ''a'' (debounce_init neitherEdge)))
     = snd (asyncDebounced (debounce_config 100 neitherEdge) fn_ok 1000 ''a'' (debounce_init neitherEdge))
   \<and> asyncThrottled (throttle_config 100 neitherEdge) fn_ok 1000 ''a'' (throttle_init neitherEdge)
     = (Fulfilled None, throttle_init neitherEdge)"
  by (simp add: scenario_defs debounce_defs throttle_defs host_defs engine_defs Let_def)

lemma throttle_neither_edge:
  "\<not> leading cfg \<Longrightarrow> \<not> trailing cfg \<Longrightarrow> \<not> sigAborted s \<Longrightarrow>
   asyncThrottled cfg fn now a s = (Fulfilled (lastResult s), s)"
  by (simp add: asyncThrottled_def Let_def)

lemma debounce_neither_edge:
  "\<not> leading cfg \<Longrightarrow> \<not> trailing cfg \<Longrightarrow> \<not> sigAborted s \<Longrightarrow> wf s \<Longrightarrow>
   (\<exists>p. fst (asyncDebounced cfg fn now a s) = Adopts p
        \<and> promises (snd (asyncDebounced cfg fn now a s)) ! p = Unsettled)
   \<and> timers (snd (asyncDebounced cfg fn now a s)) = []"
  by (auto simp: asyncDebounced_def Let_def wf_def pending_ok_def timers_clearTimer nth_append
      split: option.splits)

lemma settle_pending:
  "p < length ps \<Longrightarrow> ps ! p = Unsettled \<Longrightarrow> settle p v ps ! p = v"
  by (simp add: settle_def)

lemma throttle_flush_executes:
  assumes "wf s" "lastArgs s = Some a" "\<not> sigAborted s" "fn a = Inr r"
  shows "fst (throttle_flush fn s) = Fulfilled (Some r)"
    "calls (snd (throttle_flush fn s)) = calls s @ [(a, lastExecTime s)]"
    "lastResult (snd (throttle_flush fn s)) = Some r"
    "pendingPromise s = Some p \<Longrightarrow> promises (snd (throttle_flush fn s)) ! p = Resolved (Some r)"
    "\<not> isPending (snd (throttle_flush fn s))"
    "timers (snd (throttle_flush fn s)) = []"
proof -
  let ?s1 = "(clearTimer s)\<lparr>lastArgs := None, calls := calls (clearTimer s) @ [(a, lastExecTime (clearTimer s))]\<rparr>"
  have eq: "throttle_flush fn s = (Fulfilled (Some r), clearPending (callResolve (Some r) (?s1\<lparr>lastResult := Some r\<rparr>)))"
    using assms(2-4) by (simp add: throttle_flush_def Let_def)
  from assms(1) have t: "timers (clearTimer s) = []" by (simp add: wf_def timers_clearTimer)
  show "fst (throttle_flush fn s) = Fulfilled (Some r)" by (simp add: eq)
  show "calls (snd (throttle_flush fn s)) = calls s @ [(a, lastExecTime s)]" by (simp add: eq)
  show "lastResult (snd (throttle_flush fn s)) = Some r" by (simp add: eq)
  show "\<not> isPending (snd (throttle_flush fn s))" by (simp add: eq isPending_def)
  show "timers (snd (throttle_flush fn s)) = []" using t by (simp add: eq)
  show "promises (snd (throttle_flush fn s)) ! p = Resolved (Some r)" if "pendingPromise s = Some p"
    using that assms(1) by (simp add: eq wf_def pending_ok_def callResolve_def settle_pending)
qed

lemma throttle_flush_idle:
  assumes "wf s" "lastArgs s = None \<or> sigAborted s"
  shows "fst (throttle_flush fn s) = Fulfilled (lastResult s)"
    "calls (snd (throttle_flush fn s)) = calls s"
    "pendingPromise s = Some p \<Longrightarrow> promises (snd (throttle_flush fn s)) ! p = Resolved (lastResult s)"
    "\<not> isPending (snd (throttle_flush fn s))"
proof -
  have eq: "throttle_flush fn s
      = (Fulfilled (lastResult s), clearPending (callResolve (lastResult s) (clearTimer s)))"
    using assms(2) by (auto simp: throttle_flush_def Let_def split: option.splits)
  show "fst (throttle_flush fn s) = Fulfilled (lastResult s)" by (simp add: eq)
  show "calls (snd (throttle_flush fn s)) = calls s" by (simp add: eq)
  show "\<not> isPending (snd (throttle_flush fn s))" by (simp add: eq isPending_def)
  show "promises (snd (throttle_flush fn s)) ! p = Resolved (lastResult s)" if "pendingPromise s = Some p"
    using that assms(1) by (simp add: eq wf_def pending_ok_def callResolve_def settle_pending)
qed

text \<open>
  C5: at every tier an omitted \<open>trailing\<close> is to default to true for throttle. The high
  and the medium tier do (\<open>throttle_promise_tiers_trailing_default\<close> below); the low
  tier destructures \<open>trailing = false\<close>, against the documentation of
  \<open>ThrottleOptions.trailing\<close> (default: true). With \<open>precision: LOW\<close> and nothing else,
  the call at 1050, inside the window opened at 1000, is dropped: no timer, no call.
\<close>

theorem throttle_low_tier_no_trailing_default:
  "(throttle 100 lowOptions :: error + (string, string) throttled)
     = Inr (FastThrottle \<lparr>wait = 100, leading = True, trailing = False, maxWait = None\<rparr> low_init)
   \<and> throttleLow_invoke (throttleLow_config 100 lowOptions) fn_ok 1000 ''a'' low_init
     = \<lparr>lowTimeoutId = None, lowLastExecTime = 1000, lowLastArgs = None, lowTimers = [],
        lowNextTimer = 1, lowCalls = [(''a'', 1000)], lowWarned = []\<rparr>
   \<and> throttleLow_invoke (throttleLow_config 100 lowOptions) fn_ok 1050 ''b''
        (throttleLow_invoke (throttleLow_config 100 lowOptions) fn_ok 1000 ''a'' low_init)
     = throttleLow_invoke (throttleLow_config 100 lowOptions) fn_ok 1000 ''a'' low_init"
  by (simp add: throttle_def throttleLowPrecision_def throttleLow_config_def lowOptions_def noOptions_def
        throttleLow_invoke_def low_call_def low_init_def fn_ok_def Let_def)

lemma throttle_promise_tiers_trailing_default:
  assumes "trailingOpt options = None" "precisionOpt options \<noteq> Some LOW"
  shows "\<exists>tier c st. (throttle w options :: error + ('a, 'r) throttled) = Inr (PromiseThrottle tier c st)
           \<and> trailing c"
proof (cases "precisionOpt options")
  case None
  then show ?thesis using assms
    by (simp add: throttle_def throttleHighPrecision_def throttle_config_def)
next
  case (Some tier)
  then show ?thesis using assms
    by (cases tier)
       (simp_all add: throttle_def throttleHighPrecision_def throttleMediumPrecision_def throttle_config_def)
qed

text \<open>
  C4 (as stated): constructing a wrapper with \<open>wait \<le> 0\<close>, \<open>maxWait < wait\<close> or
  \<open>batchSize < 1\<close> raises an error at construction time. No constructor checks
  anything: each of the three returns a wrapper for such a configuration.
\<close>

theorem constructors_accept_misuse:
  "(throttle 0 badOptions :: error + (string, string) throttled)
     = Inr (PromiseThrottle HIGH \<lparr>wait = 0, leading = True, trailing = True, maxWait = Some (-1)\<rparr>
             (throttle_init badOptions))
   \<and> (debounce (-5) badOptions :: error + (string, string) debounced)
     = Inr (PromiseDebounce HIGH \<lparr>wait = -5, leading = False, trailing = True, maxWait = Some (-1)\<rparr>
             (debounce_init badOptions))
   \<and> (throttleBatch 0 \<lparr>opt_batchSize = Some 0, opt_maxWait = Some (-1)\<rparr>
        :: error + (batch_config \<times> string batch_state))
     = Inr (\<lparr>batchWait = 0, batchSize = 0, batchMaxWait = -1\<rparr>, batch_init)"
  by (simp add: throttle_def debounce_def throttleBatch_def throttleHighPrecision_def
        debounceHighPrecision_def throttle_config_def debounce_config_def batch_config_of_def
        badOptions_def noOptions_def)

text \<open>
  C4 (amended): \<open>throttle\<close>, \<open>debounce\<close> and \<open>throttleBatch\<close> validate nothing: for every
  \<open>wait\<close> and all options, also \<open>wait \<le> 0\<close>, \<open>maxWait < wait\<close> and \<open>batchSize < 1\<close>,
  construction succeeds. The wrapper is configured with \<open>wait\<close> as given. \<open>debounce\<close>
  at every precision and \<open>throttle\<close> at high and medium precision keep \<open>maxWait\<close> as
  given; \<open>throttle\<close> at low precision does not read \<open>maxWait\<close> and has none.
  \<open>throttleBatch\<close> keeps \<open>batchSize\<close> and \<open>maxWait\<close> as given, with 10 and \<open>3 * wait\<close> for
  an omitted one.
\<close>

theorem constructors_never_fail:
  "(\<exists>x. (throttle w options :: error + ('a, 'r) throttled) = Inr x
        \<and> wait (throttled_config x) = w
        \<and> maxWait (throttled_config x)
            = (if precisionOpt options = Some LOW then None else maxWaitOpt options))
   \<and> (\<exists>y. (debounce w options :: error + ('a, 'r) debounced) = Inr y
        \<and> wait (debounced_config y) = w \<and> maxWait (debounced_config y) = maxWaitOpt options)
   \<and> (throttleBatch w boptions :: error + (batch_config \<times> 'b batch_state))
        = Inr (batch_config_of w boptions, batch_init)
   \<and> batchWait (batch_config_of w boptions) = w
   \<and> batchSize (batch_config_of w boptions) = (case opt_batchSize boptions of None \<Rightarrow> 10 | Some b \<Rightarrow> b)
   \<and> batchMaxWait (batch_config_of w boptions) = (case opt_maxWait boptions of None \<Rightarrow> w * 3 | Some m \<Rightarrow> m)"
proof -
  have "\<exists>x. (throttle w options :: error + ('a, 'r) throttled) = Inr x
        \<and> wait (throttled_config x) = w
        \<and> maxWait (throttled_config x)
            = (if precisionOpt options = Some LOW then None else maxWaitOpt options)"
    by (cases "precisionOpt options"; cases "the (precisionOpt options)")
       (simp_all add: throttle_def throttleHighPrecision_def throttleMediumPrecision_def
          throttleLowPrecision_def throttle_config_def throttleLow_config_def)
  moreover have "\<exists>y. (debounce w options :: error + ('a, 'r) debounced) = Inr y
        \<and> wait (debounced_config y) = w \<and> maxWait (debounced_config y) = maxWaitOpt options"
    by (cases "precisionOpt options"; cases "the (precisionOpt options)")
       (simp_all add: debounce_def debounceHighPrecision_def debounceMediumPrecision_def
          debounceLowPrecision_def debounce_config_def)
  ultimately show ?thesis
    by (simp add: throttleBatch_def batch_config_of_def)
qed

end
